theory Spec2Isabelle
  imports Main "HOL-Library.Word" "HOL-Library.Sublist"
begin

section \<open>SQL values of the migrations\<close>

text \<open>
  The migrations are PostgreSQL. A column or PL/pgSQL variable of type INTEGER holds a
  32-bit signed integer or NULL; arithmetic on it raises \<open>integer out of range\<close>
  instead of wrapping, and any operation with a NULL operand yields NULL. A NULL is
  \<open>None\<close>; an error that aborts the statement (and with it the transaction) is
  \<open>Inl\<close>.
\<close>

type_synonym uuid = "128 word"

text \<open>A TIMESTAMPTZ, as microseconds since the epoch; \<open>NOW()\<close> is a parameter.\<close>

type_synonym timestamptz = int

datatype sql_error =
    RaiseException string
  | IntegerOutOfRange
  | NotNullViolation string
  | CheckViolation string
  | UniqueViolation string
  | RowSecurityViolation string

definition int4_ok :: "int \<Rightarrow> bool" where
  "int4_ok x = (- (2 ^ 31) \<le> x \<and> x \<le> 2 ^ 31 - 1)"

definition int4pl :: "int option \<Rightarrow> int option \<Rightarrow> sql_error + int option" where
  "int4pl x y =
     (case x of None \<Rightarrow> Inr None
      | Some a \<Rightarrow> (case y of None \<Rightarrow> Inr None
          | Some b \<Rightarrow> if int4_ok (a + b) then Inr (Some (a + b)) else Inl IntegerOutOfRange))"

definition int4mi :: "int option \<Rightarrow> int option \<Rightarrow> sql_error + int option" where
  "int4mi x y =
     (case x of None \<Rightarrow> Inr None
      | Some a \<Rightarrow> (case y of None \<Rightarrow> Inr None
          | Some b \<Rightarrow> if int4_ok (a - b) then Inr (Some (a - b)) else Inl IntegerOutOfRange))"

definition int4um :: "int option \<Rightarrow> sql_error + int option" where
  "int4um x =
     (case x of None \<Rightarrow> Inr None
      | Some a \<Rightarrow> if int4_ok (- a) then Inr (Some (- a)) else Inl IntegerOutOfRange)"

definition int4lt :: "int option \<Rightarrow> int option \<Rightarrow> bool option" where
  "int4lt x y =
     (case x of None \<Rightarrow> None
      | Some a \<Rightarrow> (case y of None \<Rightarrow> None | Some b \<Rightarrow> Some (a < b)))"

definition int4le :: "int option \<Rightarrow> int option \<Rightarrow> bool option" where
  "int4le x y =
     (case x of None \<Rightarrow> None
      | Some a \<Rightarrow> (case y of None \<Rightarrow> None | Some b \<Rightarrow> Some (a \<le> b)))"

text \<open>\<open>IF c THEN\<close> of PL/pgSQL takes the branch only when \<open>c\<close> is true: not when it is NULL.\<close>

definition plpgsql_if :: "bool option \<Rightarrow> bool" where
  "plpgsql_if c = (c = Some True)"

definition sql_bind :: "sql_error + 'a \<Rightarrow> ('a \<Rightarrow> sql_error + 'b) \<Rightarrow> sql_error + 'b" where
  "sql_bind m f = (case m of Inl e \<Rightarrow> Inl e | Inr x \<Rightarrow> f x)"

definition not_null :: "string \<Rightarrow> 'a option \<Rightarrow> sql_error + 'a" where
  "not_null col v = (case v of None \<Rightarrow> Inl (NotNullViolation col) | Some x \<Rightarrow> Inr x)"

subsection \<open>JSONB\<close>

datatype jsonb =
    JNull
  | JNum int
  | JStr string
  | JTimestamp timestamptz
  | JArr "jsonb list"
  | JObj "(string \<times> jsonb) list"

definition jsonb_of_int :: "int option \<Rightarrow> jsonb" where
  "jsonb_of_int v = (case v of None \<Rightarrow> JNull | Some n \<Rightarrow> JNum n)"

definition jsonb_of_text :: "string option \<Rightarrow> jsonb" where
  "jsonb_of_text v = (case v of None \<Rightarrow> JNull | Some s \<Rightarrow> JStr s)"

text \<open>\<open>jsonb_build_object(k1, v1, ...)\<close> with literal, distinct keys.\<close>

definition jsonb_build_object :: "(string \<times> jsonb) list \<Rightarrow> jsonb" where
  "jsonb_build_object kvs = JObj kvs"


text \<open>
  \<open>arr || v\<close> with an array on the left: an array on the right is concatenated, any
  other value is appended as one element.
\<close>

definition jsonb_concat :: "jsonb list \<Rightarrow> jsonb \<Rightarrow> jsonb list" where
  "jsonb_concat arr v = (case v of JArr xs \<Rightarrow> arr @ xs | _ \<Rightarrow> arr @ [v])"

section \<open>The points ledger: table \<open>user_points\<close>\<close>

text \<open>
  One row of \<open>public.user_points\<close>. The primary key \<open>user_id\<close> is the key of the
  table below. Every column is NOT NULL. \<open>points_history\<close> is the JSONB array of the
  column's comment (its default is \<open>'[]'\<close>).
\<close>

record user_points =
  current_balance :: int
  total_earned :: int
  total_spent :: int
  level :: int
  points_history :: "jsonb list"
  weekly_goal :: int
  updated_at :: timestamptz

type_synonym user_points_table = "uuid \<rightharpoonup> user_points"

text \<open>The CHECK constraints of the columns, tried in the order of their names.\<close>

definition user_points_checks :: "user_points \<Rightarrow> sql_error + user_points" where
  "user_points_checks r =
     (if \<not> current_balance r \<ge> 0 then Inl (CheckViolation ''user_points_current_balance_check'')
      else if \<not> level r \<ge> 1 then Inl (CheckViolation ''user_points_level_check'')
      else if \<not> total_earned r \<ge> 0 then Inl (CheckViolation ''user_points_total_earned_check'')
      else if \<not> total_spent r \<ge> 0 then Inl (CheckViolation ''user_points_total_spent_check'')
      else if \<not> weekly_goal r > 0 then Inl (CheckViolation ''user_points_weekly_goal_check'')
      else Inr r)"

text \<open>\<open>handle_updated_at\<close>, the BEFORE UPDATE trigger: \<open>NEW.updated_at = NOW()\<close>.\<close>

definition handle_updated_at :: "timestamptz \<Rightarrow> user_points \<Rightarrow> user_points" where
  "handle_updated_at now new = new\<lparr>updated_at := now\<rparr>"

text \<open>\<open>INSERT INTO public.user_points (user_id) VALUES (NEW.id)\<close>: every other column
  takes its default.\<close>

definition user_points_defaults :: "timestamptz \<Rightarrow> user_points" where
  "user_points_defaults now =
     \<lparr>current_balance = 0, total_earned = 0, total_spent = 0, level = 1,
      points_history = [], weekly_goal = 100, updated_at = now\<rparr>"

definition handle_new_profile_points ::
  "timestamptz \<Rightarrow> user_points_table \<Rightarrow> uuid \<Rightarrow> sql_error + user_points_table" where
  "handle_new_profile_points now t new_id =
     sql_bind (user_points_checks (user_points_defaults now)) (\<lambda>r.
       case t new_id of
         Some _ \<Rightarrow> Inl (UniqueViolation ''user_points_pkey'')
       | None \<Rightarrow> Inr (t(new_id \<mapsto> r)))"

text \<open>\<open>WHERE user_id = p_user_id\<close>: at most one row, none when \<open>p_user_id\<close> is NULL.\<close>

definition where_user_id :: "user_points_table \<Rightarrow> uuid option \<Rightarrow> user_points option" where
  "where_user_id t p_user_id = (case p_user_id of None \<Rightarrow> None | Some u \<Rightarrow> t u)"

text \<open>
  \<open>UPDATE public.user_points SET ... WHERE user_id = p_user_id RETURNING ...\<close>.
  \<open>set_cols\<close> evaluates the SET list on the old row (with the NOT NULL checks of the
  columns it assigns); then the BEFORE UPDATE trigger runs and the CHECK constraints
  are tested. The second component is the row RETURNING sees, none when no row
  matched.
\<close>

definition update_user_points ::
  "timestamptz \<Rightarrow> user_points_table \<Rightarrow> uuid option \<Rightarrow> (user_points \<Rightarrow> sql_error + user_points)
     \<Rightarrow> sql_error + (user_points_table \<times> user_points option)" where
  "update_user_points now t p_user_id set_cols =
     (case p_user_id of
        None \<Rightarrow> Inr (t, None)
      | Some u \<Rightarrow>
          (case t u of
             None \<Rightarrow> Inr (t, None)
           | Some old \<Rightarrow>
               sql_bind (set_cols old) (\<lambda>new.
               sql_bind (user_points_checks (handle_updated_at now new)) (\<lambda>new'.
               Inr (t(u \<mapsto> new'), Some new')))))"

subsection \<open>\<open>award_points\<close>\<close>

definition award_entry :: "timestamptz \<Rightarrow> int option \<Rightarrow> string option \<Rightarrow> string option \<Rightarrow> jsonb" where
  "award_entry now p_amount p_source p_description =
     jsonb_build_object
       [(''amount'', jsonb_of_int p_amount),
        (''source'', jsonb_of_text p_source),
        (''description'', jsonb_of_text p_description),
        (''timestamp'', JTimestamp now),
        (''type'', JStr ''earned'')]"

definition award_set ::
  "timestamptz \<Rightarrow> int option \<Rightarrow> jsonb \<Rightarrow> user_points \<Rightarrow> sql_error + user_points" where
  "award_set now p_amount v_history_entry old =
     sql_bind (int4pl (Some (current_balance old)) p_amount) (\<lambda>cb.
     sql_bind (int4pl (Some (total_earned old)) p_amount) (\<lambda>te.
     sql_bind (not_null ''current_balance'' cb) (\<lambda>cb'.
     sql_bind (not_null ''total_earned'' te) (\<lambda>te'.
       Inr (old\<lparr>current_balance := cb', total_earned := te',
                points_history := jsonb_concat (points_history old) v_history_entry,
                updated_at := now\<rparr>)))))"

text \<open>The result is the new table and the rows of
  \<open>RETURNS TABLE(new_balance INTEGER, new_total_earned INTEGER)\<close>.\<close>

definition award_points ::
  "timestamptz \<Rightarrow> user_points_table \<Rightarrow> uuid option \<Rightarrow> int option \<Rightarrow> string option \<Rightarrow> string option
     \<Rightarrow> sql_error + (user_points_table \<times> (int option \<times> int option) list)" where
  "award_points now t p_user_id p_amount p_source p_description =
     (if plpgsql_if (int4le p_amount (Some 0))
      then Inl (RaiseException ''Points amount must be positive'')
      else
        let v_history_entry = award_entry now p_amount p_source p_description in
        sql_bind (update_user_points now t p_user_id (award_set now p_amount v_history_entry))
          (\<lambda>(t', returning).
             let v_new_balance = map_option current_balance returning;
                 v_new_total_earned = map_option total_earned returning
             in Inr (t', [(v_new_balance, v_new_total_earned)])))"

subsection \<open>\<open>spend_points\<close>\<close>

definition spend_entry :: "timestamptz \<Rightarrow> int option \<Rightarrow> string option \<Rightarrow> string option \<Rightarrow> jsonb" where
  "spend_entry now neg_amount p_purpose p_description =
     jsonb_build_object
       [(''amount'', jsonb_of_int neg_amount),
        (''purpose'', jsonb_of_text p_purpose),
        (''description'', jsonb_of_text p_description),
        (''timestamp'', JTimestamp now),
        (''type'', JStr ''spent'')]"

definition spend_set ::
  "timestamptz \<Rightarrow> int option \<Rightarrow> jsonb \<Rightarrow> user_points \<Rightarrow> sql_error + user_points" where
  "spend_set now p_amount v_history_entry old =
     sql_bind (int4mi (Some (current_balance old)) p_amount) (\<lambda>cb.
     sql_bind (int4pl (Some (total_spent old)) p_amount) (\<lambda>ts.
     sql_bind (not_null ''current_balance'' cb) (\<lambda>cb'.
     sql_bind (not_null ''total_spent'' ts) (\<lambda>ts'.
       Inr (old\<lparr>current_balance := cb', total_spent := ts',
                points_history := jsonb_concat (points_history old) v_history_entry,
                updated_at := now\<rparr>)))))"

text \<open>The result is the new table and the rows of
  \<open>RETURNS TABLE(new_balance INTEGER, success BOOLEAN)\<close>.\<close>

definition spend_points ::
  "timestamptz \<Rightarrow> user_points_table \<Rightarrow> uuid option \<Rightarrow> int option \<Rightarrow> string option \<Rightarrow> string option
     \<Rightarrow> sql_error + (user_points_table \<times> (int option \<times> bool) list)" where
  "spend_points now t p_user_id p_amount p_purpose p_description =
     (if plpgsql_if (int4le p_amount (Some 0))
      then Inl (RaiseException ''Points amount must be positive'')
      else
        let v_current_balance = map_option current_balance (where_user_id t p_user_id) in
        if plpgsql_if (int4lt v_current_balance p_amount)
        then Inr (t, [(v_current_balance, False)])
        else
          sql_bind (int4um p_amount) (\<lambda>neg_amount.
          let v_history_entry = spend_entry now neg_amount p_purpose p_description in
          sql_bind (update_user_points now t p_user_id (spend_set now p_amount v_history_entry))
            (\<lambda>(t', returning).
               let v_new_balance = map_option current_balance returning
               in Inr (t', [(v_new_balance, True)]))))"

subsection \<open>Predicates on ledger rows, and the table a call leaves behind\<close>

text \<open>The accounting identity and the sign conditions of the three counters.\<close>

definition ledger_inv :: "user_points \<Rightarrow> bool" where
  "ledger_inv r =
     (current_balance r = total_earned r - total_spent r \<and> current_balance r \<ge> 0
      \<and> total_earned r \<ge> 0 \<and> total_spent r \<ge> 0)"


text \<open>An error rolls the transaction back: the table is then the one before the call.\<close>

definition table_after ::
  "user_points_table \<Rightarrow> sql_error + (user_points_table \<times> 'a) \<Rightarrow> user_points_table" where
  "table_after t res = (case res of Inl _ \<Rightarrow> t | Inr (t', _) \<Rightarrow> t')"

section \<open>Row-level security and the statements that reach the ledger\<close>

subsection \<open>Policies\<close>

datatype sql_command = Select | Insert | Update | Delete

text \<open>The policy expressions of the migrations: \<open>true\<close>, \<open>false\<close> and
  \<open>auth.uid() = id\<close>. \<open>auth.uid()\<close> is NULL for a client that is not signed in.\<close>

datatype policy_expr = PTrue | PFalse | PUidEqId

fun policy_eval :: "policy_expr \<Rightarrow> uuid option \<Rightarrow> uuid \<Rightarrow> bool option" where
  "policy_eval PTrue uid row_id = Some True"
| "policy_eval PFalse uid row_id = Some False"
| "policy_eval PUidEqId uid row_id = (case uid of None \<Rightarrow> None | Some v \<Rightarrow> Some (v = row_id))"

record policy =
  policy_name :: string
  policy_cmd :: sql_command
  policy_using :: "policy_expr option"
  policy_with_check :: "policy_expr option"

definition user_points_policies :: "policy list" where
  "user_points_policies =
     [\<lparr>policy_name = ''Points are viewable by everyone'', policy_cmd = Select,
        policy_using = Some PTrue, policy_with_check = None\<rparr>,
      \<lparr>policy_name = ''System can insert points'', policy_cmd = Insert,
        policy_using = None, policy_with_check = Some PFalse\<rparr>,
      \<lparr>policy_name = ''System can update points'', policy_cmd = Update,
        policy_using = Some PFalse, policy_with_check = Some PFalse\<rparr>]"

definition profiles_policies :: "policy list" where
  "profiles_policies =
     [\<lparr>policy_name = ''Profiles are viewable by everyone'', policy_cmd = Select,
        policy_using = Some PTrue, policy_with_check = None\<rparr>,
      \<lparr>policy_name = ''Users can insert own profile'', policy_cmd = Insert,
        policy_using = None, policy_with_check = Some PUidEqId\<rparr>,
      \<lparr>policy_name = ''Users can update own profile'', policy_cmd = Update,
        policy_using = Some PUidEqId, policy_with_check = Some PUidEqId\<rparr>,
      \<lparr>policy_name = ''Users can delete own profile'', policy_cmd = Delete,
        policy_using = Some PUidEqId, policy_with_check = None\<rparr>]"

text \<open>
  With row-level security enabled, a client's statement sees an existing row when a
  policy for its command has a USING expression that is true, and may store a new
  row when a policy for its command has a WITH CHECK expression (the USING expression
  when there is none) that is true. No policy for the command: nothing is allowed.
\<close>

definition rls_using :: "policy list \<Rightarrow> sql_command \<Rightarrow> uuid option \<Rightarrow> uuid \<Rightarrow> bool" where
  "rls_using pols cmd uid row_id =
     list_ex (\<lambda>p. policy_cmd p = cmd \<and>
        (case policy_using p of None \<Rightarrow> True
         | Some e \<Rightarrow> policy_eval e uid row_id = Some True)) pols"

definition rls_with_check :: "policy list \<Rightarrow> sql_command \<Rightarrow> uuid option \<Rightarrow> uuid \<Rightarrow> bool" where
  "rls_with_check pols cmd uid row_id =
     list_ex (\<lambda>p. policy_cmd p = cmd \<and>
        (case policy_with_check p of
           Some e \<Rightarrow> policy_eval e uid row_id = Some True
         | None \<Rightarrow> (case policy_using p of None \<Rightarrow> True
             | Some e \<Rightarrow> policy_eval e uid row_id = Some True))) pols"

subsection \<open>Direct statements of a client on \<open>user_points\<close>\<close>

text \<open>\<open>uid\<close> is the client's \<open>auth.uid()\<close>. The statements address one row by its key.\<close>

definition client_insert_points ::
  "uuid option \<Rightarrow> user_points_table \<Rightarrow> uuid \<Rightarrow> user_points \<Rightarrow> sql_error + user_points_table" where
  "client_insert_points uid t row_id new =
     (if \<not> rls_with_check user_points_policies Insert uid row_id
      then Inl (RowSecurityViolation ''user_points'')
      else sql_bind (user_points_checks new) (\<lambda>r.
        case t row_id of
          Some _ \<Rightarrow> Inl (UniqueViolation ''user_points_pkey'')
        | None \<Rightarrow> Inr (t(row_id \<mapsto> r))))"

text \<open>An UPDATE or DELETE reads the rows it changes, so the SELECT policies apply as
  well; a row that is not visible is skipped without an error.\<close>

definition client_update_points ::
  "timestamptz \<Rightarrow> uuid option \<Rightarrow> user_points_table \<Rightarrow> uuid
     \<Rightarrow> (user_points \<Rightarrow> sql_error + user_points) \<Rightarrow> sql_error + user_points_table" where
  "client_update_points now uid t row_id set_cols =
     (case t row_id of
        None \<Rightarrow> Inr t
      | Some old \<Rightarrow>
          if rls_using user_points_policies Select uid row_id
             \<and> rls_using user_points_policies Update uid row_id
          then sql_bind (set_cols old) (\<lambda>new.
                 if \<not> rls_with_check user_points_policies Update uid row_id
                 then Inl (RowSecurityViolation ''user_points'')
                 else sql_bind (user_points_checks (handle_updated_at now new))
                        (\<lambda>r. Inr (t(row_id \<mapsto> r))))
          else Inr t)"

definition client_delete_points ::
  "uuid option \<Rightarrow> user_points_table \<Rightarrow> uuid \<Rightarrow> sql_error + user_points_table" where
  "client_delete_points uid t row_id =
     (case t row_id of
        None \<Rightarrow> Inr t
      | Some old \<Rightarrow>
          if rls_using user_points_policies Select uid row_id
             \<and> rls_using user_points_policies Delete uid row_id
          then Inr (t(row_id := None))
          else Inr t)"

definition client_select_points :: "uuid option \<Rightarrow> user_points_table \<Rightarrow> user_points_table" where
  "client_select_points uid t =
     (\<lambda>row_id. if rls_using user_points_policies Select uid row_id then t row_id else None)"

subsection \<open>The table \<open>profiles\<close> and the rows that hang on it\<close>

text \<open>A row of \<open>public.profiles\<close> without its key \<open>id\<close>; \<open>weight_kg\<close>, a
  DECIMAL(5,2), is counted in hundredths.\<close>

record profile =
  username :: string
  display_name :: "string option"
  avatar_url :: "string option"
  bio :: "string option"
  fitness_level :: "string option"
  height_cm :: "int option"
  weight_kg :: "int option"
  created_at :: timestamptz
  profile_updated_at :: timestamptz

type_synonym profiles_table = "(uuid \<times> profile) list"

text \<open>A CHECK constraint on a NULL passes.\<close>

definition profile_checks :: "profile \<Rightarrow> sql_error + profile" where
  "profile_checks p =
     (if \<not> (case fitness_level p of None \<Rightarrow> True
             | Some l \<Rightarrow> l \<in> set [''beginner'', ''intermediate'', ''advanced''])
      then Inl (CheckViolation ''profiles_fitness_level_check'')
      else if \<not> (case height_cm p of None \<Rightarrow> True | Some h \<Rightarrow> h > 0 \<and> h < 300)
      then Inl (CheckViolation ''profiles_height_cm_check'')
      else if \<not> (case weight_kg p of None \<Rightarrow> True | Some w \<Rightarrow> w > 0 \<and> w < 50000)
      then Inl (CheckViolation ''profiles_weight_kg_check'')
      else Inr p)"

record database =
  profiles_tbl :: profiles_table
  user_points_tbl :: user_points_table

text \<open>
  INSERT of a profile row: constraints, the unique indexes on \<open>id\<close> and
  \<open>username\<close>, then the AFTER INSERT trigger \<open>on_profile_created_init_points\<close>; an
  error of the trigger undoes the insert. \<open>handle_new_user\<close>, the SECURITY DEFINER
  trigger on \<open>auth.users\<close>, inserts this way.
\<close>

definition insert_profile ::
  "timestamptz \<Rightarrow> database \<Rightarrow> uuid \<Rightarrow> profile \<Rightarrow> sql_error + database" where
  "insert_profile now db new_id p =
     sql_bind (profile_checks p) (\<lambda>p'.
       if map_of (profiles_tbl db) new_id \<noteq> None
       then Inl (UniqueViolation ''profiles_pkey'')
       else if list_ex (\<lambda>(i, q). username q = username p') (profiles_tbl db)
       then Inl (UniqueViolation ''profiles_username_key'')
       else sql_bind (handle_new_profile_points now (user_points_tbl db) new_id) (\<lambda>t'.
              Inr (db\<lparr>profiles_tbl := profiles_tbl db @ [(new_id, p')],
                       user_points_tbl := t'\<rparr>)))"

text \<open>The same INSERT from a client, under the policy \<open>auth.uid() = id\<close>.\<close>

definition client_insert_profile ::
  "timestamptz \<Rightarrow> uuid option \<Rightarrow> database \<Rightarrow> uuid \<Rightarrow> profile \<Rightarrow> sql_error + database" where
  "client_insert_profile now uid db new_id p =
     (if \<not> rls_with_check profiles_policies Insert uid new_id
      then Inl (RowSecurityViolation ''profiles'')
      else insert_profile now db new_id p)"

text \<open>
  UPDATE of a profile row by a client, under USING and WITH CHECK
  \<open>auth.uid() = id\<close>, which keep the key; the BEFORE UPDATE trigger \<open>set_updated_at\<close>
  stamps the row. No trigger or referential action of the ledger hangs on it.
\<close>

definition client_update_profile ::
  "timestamptz \<Rightarrow> uuid option \<Rightarrow> database \<Rightarrow> uuid \<Rightarrow> (profile \<Rightarrow> profile)
     \<Rightarrow> sql_error + database" where
  "client_update_profile now uid db row_id set_cols =
     (case map_of (profiles_tbl db) row_id of
        None \<Rightarrow> Inr db
      | Some old \<Rightarrow>
          if rls_using profiles_policies Select uid row_id
             \<and> rls_using profiles_policies Update uid row_id
          then
            if \<not> rls_with_check profiles_policies Update uid row_id
            then Inl (RowSecurityViolation ''profiles'')
            else sql_bind (profile_checks ((set_cols old)\<lparr>profile_updated_at := now\<rparr>)) (\<lambda>p'.
              if list_ex (\<lambda>(i, q). i \<noteq> row_id \<and> username q = username p') (profiles_tbl db)
              then Inl (UniqueViolation ''profiles_username_key'')
              else Inr (db\<lparr>profiles_tbl :=
                     map (\<lambda>(i, q). if i = row_id then (i, p') else (i, q)) (profiles_tbl db)\<rparr>))
          else Inr db)"

text \<open>
  Removal of a profile row. \<open>user_points.user_id\<close> REFERENCES \<open>profiles(id)\<close> ON
  DELETE CASCADE: the referential action removes the ledger row of the deleted
  profile, and it is not subject to the policies of \<open>user_points\<close>.
\<close>

definition delete_profile_row :: "database \<Rightarrow> uuid \<Rightarrow> database" where
  "delete_profile_row db row_id =
     db\<lparr>profiles_tbl := filter (\<lambda>(i, q). i \<noteq> row_id) (profiles_tbl db),
        user_points_tbl := (user_points_tbl db)(row_id := None)\<rparr>"

text \<open>DELETE of a profile row by a client, under USING \<open>auth.uid() = id\<close>.\<close>

definition client_delete_profile :: "uuid option \<Rightarrow> database \<Rightarrow> uuid \<Rightarrow> sql_error + database" where
  "client_delete_profile uid db row_id =
     (case map_of (profiles_tbl db) row_id of
        None \<Rightarrow> Inr db
      | Some p \<Rightarrow>
          if rls_using profiles_policies Select uid row_id
             \<and> rls_using profiles_policies Delete uid row_id
          then Inr (delete_profile_row db row_id)
          else Inr db)"

text \<open>\<open>profiles.id\<close> REFERENCES \<open>auth.users(id)\<close> ON DELETE CASCADE: when the auth
  service deletes a user, the profile goes, and the ledger row with it.\<close>

definition on_auth_user_deleted :: "database \<Rightarrow> uuid \<Rightarrow> database" where
  "on_auth_user_deleted db row_id =
     (case map_of (profiles_tbl db) row_id of
        None \<Rightarrow> db
      | Some p \<Rightarrow> delete_profile_row db row_id)"

subsection \<open>One statement against the database\<close>

text \<open>
  The statements of the schema that name \<open>user_points\<close> or a table it references,
  as a client or a trigger can issue them. \<open>check_challenge_completion\<close> reaches the
  ledger only through \<open>PERFORM public.award_points(...)\<close>, which is \<open>Rpc_award_points\<close>.
\<close>

datatype statement =
    Client_insert_points "uuid option" uuid user_points
  | Client_update_points timestamptz "uuid option" uuid "user_points \<Rightarrow> sql_error + user_points"
  | Client_delete_points "uuid option" uuid
  | Rpc_award_points timestamptz "uuid option" "int option" "string option" "string option"
  | Rpc_spend_points timestamptz "uuid option" "int option" "string option" "string option"
  | Handle_new_user timestamptz uuid profile
  | Client_insert_profile timestamptz "uuid option" uuid profile
  | Client_update_profile timestamptz "uuid option" uuid "profile \<Rightarrow> profile"
  | Client_delete_profile "uuid option" uuid
  | Auth_user_deleted uuid

text \<open>A statement that fails changes nothing.\<close>

definition keep_on_error :: "'s \<Rightarrow> sql_error + 's \<Rightarrow> 's" where
  "keep_on_error s res = (case res of Inl _ \<Rightarrow> s | Inr s' \<Rightarrow> s')"

fun exec :: "database \<Rightarrow> statement \<Rightarrow> database" where
  "exec db (Client_insert_points uid row_id new) =
     db\<lparr>user_points_tbl :=
          keep_on_error (user_points_tbl db)
            (client_insert_points uid (user_points_tbl db) row_id new)\<rparr>"
| "exec db (Client_update_points now uid row_id set_cols) =
     db\<lparr>user_points_tbl :=
          keep_on_error (user_points_tbl db)
            (client_update_points now uid (user_points_tbl db) row_id set_cols)\<rparr>"
| "exec db (Client_delete_points uid row_id) =
     db\<lparr>user_points_tbl :=
          keep_on_error (user_points_tbl db)
            (client_delete_points uid (user_points_tbl db) row_id)\<rparr>"
| "exec db (Rpc_award_points now p_user_id p_amount p_source p_description) =
     db\<lparr>user_points_tbl :=
          table_after (user_points_tbl db)
            (award_points now (user_points_tbl db) p_user_id p_amount p_source p_description)\<rparr>"
| "exec db (Rpc_spend_points now p_user_id p_amount p_purpose p_description) =
     db\<lparr>user_points_tbl :=
          table_after (user_points_tbl db)
            (spend_points now (user_points_tbl db) p_user_id p_amount p_purpose p_description)\<rparr>"
| "exec db (Handle_new_user now new_id p) = keep_on_error db (insert_profile now db new_id p)"
| "exec db (Client_insert_profile now uid new_id p) =
     keep_on_error db (client_insert_profile now uid db new_id p)"
| "exec db (Client_update_profile now uid row_id set_cols) =
     keep_on_error db (client_update_profile now uid db row_id set_cols)"
| "exec db (Client_delete_profile uid row_id) =
     keep_on_error db (client_delete_profile uid db row_id)"
| "exec db (Auth_user_deleted row_id) = on_auth_user_deleted db row_id"

text \<open>The statements that run \<open>award_points\<close>, \<open>spend_points\<close> or the trigger
  \<open>handle_new_profile_points\<close>.\<close>

fun ledger_routine :: "statement \<Rightarrow> bool" where
  "ledger_routine (Rpc_award_points now p_user_id p_amount p_source p_description) = True"
| "ledger_routine (Rpc_spend_points now p_user_id p_amount p_purpose p_description) = True"
| "ledger_routine (Handle_new_user now new_id p) = True"
| "ledger_routine (Client_insert_profile now uid new_id p) = True"
| "ledger_routine _ = False"

text \<open>The statements that delete the profile of user \<open>u\<close>: the user's own DELETE, or
  the deletion of the auth user.\<close>

fun removes_profile :: "statement \<Rightarrow> uuid \<Rightarrow> bool" where
  "removes_profile (Client_delete_profile uid row_id) u = (uid = Some u \<and> row_id = u)"
| "removes_profile (Auth_user_deleted row_id) u = (row_id = u)"
| "removes_profile _ u = False"

section \<open>The format validators\<close>

text \<open>
  A JavaScript string is a sequence of 16-bit code units: \<open>length\<close> counts them and a
  regular expression without the \<open>u\<close> flag matches them one at a time.
\<close>

type_synonym code_unit = "16 word"

type_synonym js_string = "code_unit list"

text \<open>A string literal of ASCII characters as code units.\<close>

definition utf16 :: "string \<Rightarrow> js_string" where
  "utf16 s = map of_char s"

subsection \<open>The regular expressions of the validators\<close>

text \<open>A range \<open>lo-hi\<close> of a character class.\<close>

definition in_range :: "char \<Rightarrow> char \<Rightarrow> code_unit \<Rightarrow> bool" where
  "in_range lo hi c = (of_char lo \<le> c \<and> c \<le> of_char hi)"

text \<open>\<open>\s\<close>: the white space and line terminator code units of ECMAScript.\<close>

definition space_class :: "code_unit \<Rightarrow> bool" where
  "space_class c =
     (c \<in> set [0x0009, 0x000A, 0x000B, 0x000C, 0x000D, 0x0020, 0x00A0, 0x1680,
                0x2028, 0x2029, 0x202F, 0x205F, 0x3000, 0xFEFF]
      \<or> (0x2000 \<le> c \<and> c \<le> 0x200A))"

text \<open>\<open>[^\s@]\<close>, \<open>[A-Z]\<close>, \<open>[a-z]\<close>, \<open>[0-9]\<close> and \<open>[a-zA-Z0-9_]\<close>.\<close>

definition not_space_at :: "code_unit \<Rightarrow> bool" where
  "not_space_at c = (\<not> (space_class c \<or> c = of_char CHR ''@''))"

definition upper_class :: "code_unit \<Rightarrow> bool" where
  "upper_class c = in_range CHR ''A'' CHR ''Z'' c"

definition lower_class :: "code_unit \<Rightarrow> bool" where
  "lower_class c = in_range CHR ''a'' CHR ''z'' c"

definition digit_class :: "code_unit \<Rightarrow> bool" where
  "digit_class c = in_range CHR ''0'' CHR ''9'' c"

definition word_class :: "code_unit \<Rightarrow> bool" where
  "word_class c =
     (in_range CHR ''a'' CHR ''z'' c \<or> in_range CHR ''A'' CHR ''Z'' c
      \<or> in_range CHR ''0'' CHR ''9'' c \<or> c = of_char CHR ''_'')"

text \<open>
  The patterns the validators use: one code unit of a class, a class repeated once
  or more (\<open>+\<close>), and sequences of these.
\<close>

datatype regex =
    One_of "code_unit \<Rightarrow> bool"
  | Plus_of "code_unit \<Rightarrow> bool"
  | Seq regex regex

text \<open>
  A backtracking matcher: \<open>k\<close> is what has to match the rest. \<open>+\<close> is greedy, it
  first tries to take one more code unit and gives it back when the rest then fails.
\<close>

fun plus_matches :: "(code_unit \<Rightarrow> bool) \<Rightarrow> js_string \<Rightarrow> (js_string \<Rightarrow> bool) \<Rightarrow> bool" where
  "plus_matches p [] k = False"
| "plus_matches p (c # cs) k = (p c \<and> (plus_matches p cs k \<or> k cs))"

fun matches :: "regex \<Rightarrow> js_string \<Rightarrow> (js_string \<Rightarrow> bool) \<Rightarrow> bool" where
  "matches (One_of p) s k = (case s of [] \<Rightarrow> False | c # cs \<Rightarrow> p c \<and> k cs)"
| "matches (Plus_of p) s k = plus_matches p s k"
| "matches (Seq r1 r2) s k = matches r1 s (\<lambda>rest. matches r2 rest k)"

text \<open>\<open>/^r$/.test(s)\<close>: the match starts at the first code unit and ends at the last.\<close>

definition test_anchored :: "regex \<Rightarrow> js_string \<Rightarrow> bool" where
  "test_anchored r s = matches r s (\<lambda>rest. rest = [])"

text \<open>\<open>/r/.test(s)\<close>: a match may start anywhere and end anywhere.\<close>

fun test_search :: "regex \<Rightarrow> js_string \<Rightarrow> bool" where
  "test_search r [] = matches r [] (\<lambda>rest. True)"
| "test_search r (c # cs) = (matches r (c # cs) (\<lambda>rest. True) \<or> test_search r cs)"

subsection \<open>\<open>isValidEmail\<close>, \<open>validatePassword\<close>, \<open>validateUsername\<close>\<close>

definition emailRegex :: regex where
  "emailRegex =
     Seq (Plus_of not_space_at)
       (Seq (One_of (\<lambda>c. c = of_char CHR ''@''))
          (Seq (Plus_of not_space_at)
             (Seq (One_of (\<lambda>c. c = of_char CHR ''.''))
                (Plus_of not_space_at))))"

definition isValidEmail :: "js_string \<Rightarrow> bool" where
  "isValidEmail email_str = test_anchored emailRegex email_str"

text \<open>The result \<open>{ valid: boolean; message?: string }\<close>.\<close>

record validation =
  valid :: bool
  message :: "string option"

definition validatePassword :: "js_string \<Rightarrow> validation" where
  "validatePassword password_str =
     (if length password_str < 8
      then \<lparr>valid = False, message = Some ''Password must be at least 8 characters''\<rparr>
      else if \<not> test_search (One_of upper_class) password_str
      then \<lparr>valid = False,
            message = Some ''Password must contain at least one uppercase letter''\<rparr>
      else if \<not> test_search (One_of lower_class) password_str
      then \<lparr>valid = False,
            message = Some ''Password must contain at least one lowercase letter''\<rparr>
      else if \<not> test_search (One_of digit_class) password_str
      then \<lparr>valid = False, message = Some ''Password must contain at least one number''\<rparr>
      else \<lparr>valid = True, message = None\<rparr>)"

definition validateUsername :: "js_string \<Rightarrow> validation" where
  "validateUsername username_str =
     (if length username_str < 3
      then \<lparr>valid = False, message = Some ''Username must be at least 3 characters''\<rparr>
      else if length username_str > 20
      then \<lparr>valid = False, message = Some ''Username must be no more than 20 characters''\<rparr>
      else if \<not> test_anchored (Plus_of word_class) username_str
      then \<lparr>valid = False,
            message = Some ''Username can only contain letters, numbers, and underscores''\<rparr>
      else \<lparr>valid = True, message = None\<rparr>)"

text \<open>
  What the specification says an accepted e-mail address is: one or more code units
  that are neither white space nor \<open>@\<close>, then \<open>@\<close>, then one or more such code
  units, then \<open>.\<close>, then one or more such code units.
\<close>

definition email_shape :: "js_string \<Rightarrow> bool" where
  "email_shape e =
     (\<exists>a b c. e = a @ [of_char CHR ''@''] @ b @ [of_char CHR ''.''] @ c
        \<and> a \<noteq> [] \<and> b \<noteq> [] \<and> c \<noteq> []
        \<and> list_all not_space_at a \<and> list_all not_space_at b \<and> list_all not_space_at c)"

text \<open>The \<open>User\<close> object of the SDK, by its id.\<close>

datatype user = User string

section \<open>The auth-state hooks\<close>

text \<open>\<open>useUser\<close>: the state \<open>{user, loading}\<close>, first \<open>{null, true}\<close>.\<close>

record use_user =
  user :: "user option"
  loading :: bool










section \<open>The authentication utilities\<close>

text \<open>
  A promise of the SDK is fulfilled with a value or rejected with a thrown value. The
  utilities tell an \<open>Error\<close> (whose \<open>message\<close> they read) from any other thrown
  value.
\<close>

datatype thrown = ThrownError string | ThrownOther

type_synonym 'a promise = "thrown + 'a"

text \<open>The \<open>error\<close> member of an SDK response: \<open>message\<close> and, for the data API, \<open>code\<close>.\<close>

record backend_error =
  be_message :: string
  be_code :: "string option"

text \<open>The requests the utilities send, with their arguments.\<close>

datatype request =
    Profiles_select_username string
  | Auth_signUp string string string string
  | Auth_signInWithPassword string string
  | Auth_signOut
  | Auth_getUser
  | Auth_resetPasswordForEmail string string
  | Auth_updateUser string

text \<open>
  The client \<open>createClient()\<close> returns: for each request, the outcome of awaiting it.
  A response is the pair \<open>{data, error}\<close>, reduced to what the utilities read.
\<close>

record supabase_client =
  profiles_select_username :: "string \<Rightarrow> (string option \<times> backend_error option) promise"
  auth_signUp :: "string \<Rightarrow> string \<Rightarrow> string \<Rightarrow> string \<Rightarrow> (user option \<times> backend_error option) promise"
  auth_signInWithPassword :: "string \<Rightarrow> string \<Rightarrow> (user option \<times> backend_error option) promise"
  auth_signOut :: "backend_error option promise"
  auth_getUser :: "user option promise"
  auth_resetPasswordForEmail :: "string \<Rightarrow> string \<Rightarrow> backend_error option promise"
  auth_updateUser :: "string \<Rightarrow> backend_error option promise"

record SignUpData =
  email :: string
  password :: string
  username :: string
  displayName :: string

record LoginData =
  email :: string
  password :: string

record AuthError =
  message :: string
  field :: "string option"

record auth_result =
  user :: "user option"
  error :: "AuthError option"

text \<open>An async function body: the requests it has sent, and how it ends.\<close>

type_synonym 'a async = "request list \<times> 'a promise"

definition return_async :: "'a \<Rightarrow> 'a async" where
  "return_async v = ([], Inr v)"

definition await :: "request \<Rightarrow> 'a promise \<Rightarrow> ('a \<Rightarrow> 'b async) \<Rightarrow> 'b async" where
  "await req outcome k =
     (case outcome of
        Inl err \<Rightarrow> ([req], Inl err)
      | Inr v \<Rightarrow> (case k v of (reqs, r) \<Rightarrow> (req # reqs, r)))"

definition try_catch :: "'a async \<Rightarrow> (thrown \<Rightarrow> 'a async) \<Rightarrow> 'a async" where
  "try_catch body handler =
     (case body of
        (reqs, Inl err) \<Rightarrow> (case handler err of (reqs', r) \<Rightarrow> (reqs @ reqs', r))
      | (reqs, Inr v) \<Rightarrow> (reqs, Inr v))"

text \<open>\<open>err instanceof Error ? err.message : 'An unknown error occurred'\<close>\<close>

definition caught_message :: "thrown \<Rightarrow> string" where
  "caught_message err =
     (case err of ThrownError m \<Rightarrow> m | ThrownOther \<Rightarrow> ''An unknown error occurred'')"

definition signUp :: "supabase_client \<Rightarrow> SignUpData \<Rightarrow> auth_result async" where
  "signUp supabase data =
     try_catch
       (await (Profiles_select_username (username data))
          (profiles_select_username supabase (username data))
          (\<lambda>(existingUser, checkError).
             if existingUser \<noteq> None
             then return_async
                    \<lparr>user = None,
                     error = Some \<lparr>message = ''Username already taken'', field = Some ''username''\<rparr>\<rparr>
             else if checkError \<noteq> None \<and> be_code (the checkError) \<noteq> Some ''PGRST116''
             then return_async
                    \<lparr>user = None,
                     error = Some \<lparr>message = be_message (the checkError), field = None\<rparr>\<rparr>
             else
               await (Auth_signUp (SignUpData.email data) (SignUpData.password data)
                        (username data) (displayName data))
                 (auth_signUp supabase (SignUpData.email data) (SignUpData.password data)
                    (username data) (displayName data))
                 (\<lambda>(authData_user, authError).
                    if authError \<noteq> None
                    then return_async
                           \<lparr>user = None,
                            error = Some \<lparr>message = be_message (the authError), field = None\<rparr>\<rparr>
                    else return_async \<lparr>user = authData_user, error = None\<rparr>)))
       (\<lambda>err. return_async
                \<lparr>user = None, error = Some \<lparr>message = caught_message err, field = None\<rparr>\<rparr>)"

definition login :: "supabase_client \<Rightarrow> LoginData \<Rightarrow> auth_result async" where
  "login supabase data =
     try_catch
       (await (Auth_signInWithPassword (LoginData.email data) (LoginData.password data))
          (auth_signInWithPassword supabase (LoginData.email data) (LoginData.password data))
          (\<lambda>(authData_user, authError).
             if authError \<noteq> None
             then return_async
                    \<lparr>user = None,
                     error = Some \<lparr>message = be_message (the authError), field = None\<rparr>\<rparr>
             else return_async \<lparr>user = authData_user, error = None\<rparr>))
       (\<lambda>err. return_async
                \<lparr>user = None, error = Some \<lparr>message = caught_message err, field = None\<rparr>\<rparr>)"

text \<open>\<open>logout\<close>, \<open>resetPassword\<close> and \<open>updatePassword\<close> return \<open>{error}\<close> alone.\<close>

definition logout :: "supabase_client \<Rightarrow> AuthError option async" where
  "logout supabase =
     try_catch
       (await Auth_signOut (auth_signOut supabase)
          (\<lambda>error.
             if error \<noteq> None
             then return_async (Some \<lparr>message = be_message (the error), field = None\<rparr>)
             else return_async None))
       (\<lambda>err. return_async (Some \<lparr>message = caught_message err, field = None\<rparr>))"

definition getCurrentUser :: "supabase_client \<Rightarrow> user option async" where
  "getCurrentUser supabase =
     try_catch
       (await Auth_getUser (auth_getUser supabase) (\<lambda>user. return_async user))
       (\<lambda>err. return_async None)"

text \<open>\<open>NEXT_PUBLIC_APP_URL\<close> of the environment; unset, the template literal prints
  \<open>undefined\<close>.\<close>

definition reset_redirectTo :: "string option \<Rightarrow> string" where
  "reset_redirectTo app_url =
     (case app_url of None \<Rightarrow> ''undefined'' | Some s \<Rightarrow> s) @ ''/auth/reset-password''"

definition resetPassword :: "supabase_client \<Rightarrow> string option \<Rightarrow> string \<Rightarrow> AuthError option async" where
  "resetPassword supabase app_url email_addr =
     try_catch
       (await (Auth_resetPasswordForEmail email_addr (reset_redirectTo app_url))
          (auth_resetPasswordForEmail supabase email_addr (reset_redirectTo app_url))
          (\<lambda>error.
             if error \<noteq> None
             then return_async (Some \<lparr>message = be_message (the error), field = None\<rparr>)
             else return_async None))
       (\<lambda>err. return_async (Some \<lparr>message = caught_message err, field = None\<rparr>))"

definition updatePassword :: "supabase_client \<Rightarrow> string \<Rightarrow> AuthError option async" where
  "updatePassword supabase newPassword =
     try_catch
       (await (Auth_updateUser newPassword) (auth_updateUser supabase newPassword)
          (\<lambda>error.
             if error \<noteq> None
             then return_async (Some \<lparr>message = be_message (the error), field = None\<rparr>)
             else return_async None))
       (\<lambda>err. return_async (Some \<lparr>message = caught_message err, field = None\<rparr>))"


text \<open>
  The pass-through the specification describes, for a response that carries only
  \<open>error\<close> and for one that carries a user: the backend's message unchanged and no
  field on failure, no error on success.
\<close>

definition pass_through :: "backend_error option promise \<Rightarrow> AuthError option" where
  "pass_through outcome =
     (case outcome of
        Inl err \<Rightarrow> Some \<lparr>message = caught_message err, field = None\<rparr>
      | Inr None \<Rightarrow> None
      | Inr (Some e) \<Rightarrow> Some \<lparr>message = be_message e, field = None\<rparr>)"

definition auth_pass_through :: "(user option \<times> backend_error option) promise \<Rightarrow> auth_result" where
  "auth_pass_through outcome =
     (case outcome of
        Inl err \<Rightarrow> \<lparr>user = None, error = Some \<lparr>message = caught_message err, field = None\<rparr>\<rparr>
      | Inr (u, None) \<Rightarrow> \<lparr>user = u, error = None\<rparr>
      | Inr (u, Some e) \<Rightarrow> \<lparr>user = None, error = Some \<lparr>message = be_message e, field = None\<rparr>\<rparr>)"

section \<open>Properties of the ledger functions\<close>

subsection \<open>When the statements succeed\<close>

lemma sql_bind_Inr_iff: "sql_bind m f = Inr y \<longleftrightarrow> (\<exists>x. m = Inr x \<and> f x = Inr y)"
  by (cases m) (simp_all add: sql_bind_def)

lemma int4pl_Some_Inr: "int4pl (Some x) (Some y) = Inr v \<longleftrightarrow> int4_ok (x + y) \<and> v = Some (x + y)"
  by (auto simp: int4pl_def)

lemma int4mi_Some_Inr: "int4mi (Some x) (Some y) = Inr v \<longleftrightarrow> int4_ok (x - y) \<and> v = Some (x - y)"
  by (auto simp: int4mi_def)

lemma not_null_Inr: "not_null c v = Inr x \<longleftrightarrow> v = Some x"
  by (cases v) (simp_all add: not_null_def)

lemma user_points_checks_Inr: "user_points_checks r = Inr r' \<longleftrightarrow>
   r' = r \<and> current_balance r \<ge> 0 \<and> level r \<ge> 1 \<and> total_earned r \<ge> 0 \<and> total_spent r \<ge> 0 \<and> weekly_goal r > 0"
  by (auto simp: user_points_checks_def)

lemma award_set_Inr:
  "award_set now (Some a) e old = Inr new \<longleftrightarrow>
     int4_ok (current_balance old + a) \<and> int4_ok (total_earned old + a) \<and>
     new = old\<lparr>current_balance := current_balance old + a, total_earned := total_earned old + a,
               points_history := jsonb_concat (points_history old) e, updated_at := now\<rparr>"
  by (auto simp: award_set_def sql_bind_Inr_iff int4pl_Some_Inr not_null_Inr)

lemma spend_set_Inr:
  "spend_set now (Some a) e old = Inr new \<longleftrightarrow>
     int4_ok (current_balance old - a) \<and> int4_ok (total_spent old + a) \<and>
     new = old\<lparr>current_balance := current_balance old - a, total_spent := total_spent old + a,
               points_history := jsonb_concat (points_history old) e, updated_at := now\<rparr>"
  by (auto simp: spend_set_def sql_bind_Inr_iff int4pl_Some_Inr int4mi_Some_Inr not_null_Inr)

lemma update_user_points_Inr:
  assumes "t u = Some old"
  shows "update_user_points now t (Some u) f = Inr (t', ret) \<longleftrightarrow>
     (\<exists>new. f old = Inr new \<and> user_points_checks (handle_updated_at now new) = Inr (handle_updated_at now new)
        \<and> t' = t(u \<mapsto> handle_updated_at now new) \<and> ret = Some (handle_updated_at now new))"
  using assms
  by (auto simp: update_user_points_def sql_bind_Inr_iff user_points_checks_Inr)

lemma award_points_Inr:
  assumes "t u = Some old" and "0 < a"
  shows "award_points now t (Some u) (Some a) src d = Inr (t', res) \<longleftrightarrow>
     (\<exists>new. award_set now (Some a) (award_entry now (Some a) src d) old = Inr new
        \<and> user_points_checks (handle_updated_at now new) = Inr (handle_updated_at now new)
        \<and> t' = t(u \<mapsto> handle_updated_at now new)
        \<and> res = [(Some (current_balance new), Some (total_earned new))])"
  using assms
  apply (simp add: award_points_def plpgsql_if_def int4le_def Let_def sql_bind_Inr_iff
      update_user_points_Inr handle_updated_at_def split_paired_Ex)
  by auto

lemma spend_points_Inr:
  assumes "t u = Some old" and "0 < a" and "a \<le> current_balance old"
  shows "spend_points now t (Some u) (Some a) pur d = Inr (t', res) \<longleftrightarrow>
     (\<exists>new. int4_ok (- a)
        \<and> spend_set now (Some a) (spend_entry now (Some (- a)) pur d) old = Inr new
        \<and> user_points_checks (handle_updated_at now new) = Inr (handle_updated_at now new)
        \<and> t' = t(u \<mapsto> handle_updated_at now new)
        \<and> res = [(Some (current_balance new), True)])"
  using assms
  apply (simp add: spend_points_def plpgsql_if_def int4le_def int4lt_def int4um_def Let_def
      where_user_id_def sql_bind_Inr_iff update_user_points_Inr handle_updated_at_def split_paired_Ex)
  by auto

lemma jsonb_concat_award_entry:
  "jsonb_concat h (award_entry now a src d) = h @ [award_entry now a src d]"
  by (simp add: jsonb_concat_def award_entry_def jsonb_build_object_def)

lemma jsonb_concat_spend_entry:
  "jsonb_concat h (spend_entry now a pur d) = h @ [spend_entry now a pur d]"
  by (simp add: jsonb_concat_def spend_entry_def jsonb_build_object_def)



lemma spend_points_low_balance:
  assumes "t u = Some r" and "0 < a" and "current_balance r < a"
  shows "spend_points now t (Some u) (Some a) pur d = Inr (t, [(Some (current_balance r), False)])"
  using assms
  by (simp add: spend_points_def plpgsql_if_def int4le_def int4lt_def where_user_id_def)

lemma award_points_after:
  "table_after t (award_points now t p_user_id p_amount src d) = t \<or>
   (\<exists>u old a. p_user_id = Some u \<and> p_amount = Some a \<and> 0 < a \<and> t u = Some old \<and>
      table_after t (award_points now t p_user_id p_amount src d)
        = t(u \<mapsto> old\<lparr>current_balance := current_balance old + a, total_earned := total_earned old + a,
               points_history := points_history old @ [award_entry now p_amount src d], updated_at := now\<rparr>))"
proof (cases "award_points now t p_user_id p_amount src d")
  case (Inl e)
  then show ?thesis by (simp add: table_after_def)
next
  case (Inr p)
  obtain t' res where p: "p = (t', res)" by (cases p)
  show ?thesis
  proof (cases "\<exists>u old. p_user_id = Some u \<and> t u = Some old")
    case False
    then have "update_user_points now t p_user_id (award_set now p_amount (award_entry now p_amount src d)) = Inr (t, None)"
      by (auto simp: update_user_points_def split: option.splits)
    with Inr p have "t' = t"
      by (auto simp: award_points_def sql_bind_def Let_def split: if_splits)
    then show ?thesis using Inr p by (simp add: table_after_def)
  next
    case True
    then obtain u old where u: "p_user_id = Some u" "t u = Some old" by blast
    show ?thesis
    proof (cases p_amount)
      case None
      then have "award_points now t p_user_id p_amount src d = Inl (NotNullViolation ''current_balance'')"
        using u by (simp add: award_points_def plpgsql_if_def int4le_def update_user_points_def
            award_set_def int4pl_def sql_bind_def not_null_def)
      with Inr show ?thesis by simp
    next
      case (Some a)
      have pos: "0 < a"
        using Inr Some by (auto simp: award_points_def plpgsql_if_def int4le_def split: if_splits)
      from Inr p Some u pos obtain new where
        n: "award_set now (Some a) (award_entry now (Some a) src d) old = Inr new"
        and t': "t' = t(u \<mapsto> handle_updated_at now new)"
        using award_points_Inr[of t u old a now src d t' res] by auto
      from n have "handle_updated_at now new = old\<lparr>current_balance := current_balance old + a, total_earned := total_earned old + a,
               points_history := points_history old @ [award_entry now (Some a) src d], updated_at := now\<rparr>"
        by (simp add: award_set_Inr handle_updated_at_def jsonb_concat_award_entry)
      with t' Inr p Some u pos show ?thesis
        by (simp add: table_after_def)
    qed
  qed
qed

lemma spend_points_after:
  "table_after t (spend_points now t p_user_id p_amount pur d) = t \<or>
   (\<exists>u old a. p_user_id = Some u \<and> p_amount = Some a \<and> 0 < a \<and> a \<le> current_balance old \<and> t u = Some old \<and>
      table_after t (spend_points now t p_user_id p_amount pur d)
        = t(u \<mapsto> old\<lparr>current_balance := current_balance old - a, total_spent := total_spent old + a,
               points_history := points_history old @ [spend_entry now (Some (- a)) pur d], updated_at := now\<rparr>))"
proof (cases "spend_points now t p_user_id p_amount pur d")
  case (Inl e)
  then show ?thesis by (simp add: table_after_def)
next
  case (Inr p)
  obtain t' res where p: "p = (t', res)" by (cases p)
  show ?thesis
  proof (cases "\<exists>u old. p_user_id = Some u \<and> t u = Some old")
    case False
    then have "\<And>e. update_user_points now t p_user_id (spend_set now p_amount e) = Inr (t, None)"
      by (auto simp: update_user_points_def split: option.splits)
    with Inr p have "t' = t"
      by (auto simp: spend_points_def sql_bind_def Let_def split: if_splits sum.splits)
    then show ?thesis using Inr p by (simp add: table_after_def)
  next
    case True
    then obtain u old where u: "p_user_id = Some u" "t u = Some old" by blast
    show ?thesis
    proof (cases p_amount)
      case None
      then have "spend_points now t p_user_id p_amount pur d = Inl (NotNullViolation ''current_balance'')"
        using u by (simp add: spend_points_def plpgsql_if_def int4le_def int4lt_def int4um_def
            where_user_id_def update_user_points_def
            spend_set_def int4pl_def int4mi_def sql_bind_def not_null_def)
      with Inr show ?thesis by simp
    next
      case (Some a)
      have pos: "0 < a"
        using Inr Some by (auto simp: spend_points_def plpgsql_if_def int4le_def split: if_splits)
      show ?thesis
      proof (cases "a \<le> current_balance old")
        case False
        then have "spend_points now t p_user_id p_amount pur d = Inr (t, [(Some (current_balance old), False)])"
          using spend_points_low_balance[of t u old a now pur d] u Some pos by simp
        then show ?thesis by (simp add: table_after_def)
      next
        case True
        from Inr p Some u pos True obtain new where
          n: "spend_set now (Some a) (spend_entry now (Some (- a)) pur d) old = Inr new"
          and t': "t' = t(u \<mapsto> handle_updated_at now new)"
          using spend_points_Inr[of t u old a now pur d t' res] by auto
        from n have "handle_updated_at now new = old\<lparr>current_balance := current_balance old - a, total_spent := total_spent old + a,
               points_history := points_history old @ [spend_entry now (Some (- a)) pur d], updated_at := now\<rparr>"
          by (simp add: spend_set_Inr handle_updated_at_def jsonb_concat_spend_entry)
        with t' Inr p Some u pos True show ?thesis
          by (simp add: table_after_def)
      qed
    qed
  qed
qed

subsection \<open>Effects of a call\<close>



text \<open>
  C2. When the user has a row and the positive amount exceeds the balance,
  \<open>spend_points\<close> returns the one row (current balance, false), and the table, hence
  every column of the user's row, is what it was.
\<close>

theorem spend_points_insufficient:
  assumes "t u = Some r" and "0 < a" and "current_balance r < a"
  shows "spend_points now t (Some u) (Some a) p_purpose p_description
           = Inr (t, [(Some (current_balance r), False)])"
  using assms
  by (simp add: spend_points_def plpgsql_if_def int4le_def int4lt_def where_user_id_def)

theorem spend_points_insufficient_witness:
  "spend_points 1000
     [(7::uuid) \<mapsto> \<lparr>current_balance = 5, total_earned = 9, total_spent = 4, level = 1,
                  points_history = [], weekly_goal = 100, updated_at = 0\<rparr>]
     (Some 7) (Some 10) (Some ''story_contribution'') (Some [])
   = Inr ([7 \<mapsto> \<lparr>current_balance = 5, total_earned = 9, total_spent = 4, level = 1,
                  points_history = [], weekly_goal = 100, updated_at = 0\<rparr>],
          [(Some 5, False)])"
  using spend_points_insufficient[where t = "[(7::uuid) \<mapsto> \<lparr>current_balance = 5, total_earned = 9,
      total_spent = 4, level = 1, points_history = [], weekly_goal = 100, updated_at = 0\<rparr>]"
      and u = 7 and a = 10 and now = 1000 and p_purpose = "Some ''story_contribution''"
      and p_description = "Some []"]
  by simp

text \<open>
  C8. The accounting identity \<open>current_balance = total_earned - total_spent\<close> with the
  three counters non-negative holds for the row \<open>handle_new_profile_points\<close> inserts
  (all three are 0), and if it holds for every row of the table, it holds for every
  row of the table that any call of \<open>award_points\<close> or of \<open>spend_points\<close> leaves
  behind, whatever the arguments and whether the call returns or raises.
\<close>

theorem ledger_invariant:
  "ledger_inv (user_points_defaults now)
   \<and> (handle_new_profile_points now t new_id = Inr t1
        \<longrightarrow> t1 = t(new_id \<mapsto> user_points_defaults now))
   \<and> ((\<forall>r \<in> ran t. ledger_inv r)
        \<longrightarrow> (\<forall>r \<in> ran (table_after t (award_points now t p_user_id p_amount src d)). ledger_inv r))
   \<and> ((\<forall>r \<in> ran t. ledger_inv r)
        \<longrightarrow> (\<forall>r \<in> ran (table_after t (spend_points now t p_user_id p_amount pur d)). ledger_inv r))"
proof (intro conjI impI)
  show "ledger_inv (user_points_defaults now)"
    by (simp add: ledger_inv_def user_points_defaults_def)
next
  assume "handle_new_profile_points now t new_id = Inr t1"
  then show "t1 = t(new_id \<mapsto> user_points_defaults now)"
    by (auto simp: handle_new_profile_points_def sql_bind_Inr_iff user_points_checks_Inr
        split: option.splits)
next
  assume inv: "\<forall>r \<in> ran t. ledger_inv r"
  let ?t' = "table_after t (award_points now t p_user_id p_amount src d)"
  show "\<forall>r \<in> ran ?t'. ledger_inv r"
  proof
    fix r assume r: "r \<in> ran ?t'"
    from award_points_after[of t now p_user_id p_amount src d]
    show "ledger_inv r"
    proof
      assume "?t' = t" with r inv show ?thesis by simp
    next
      assume "\<exists>u old a. p_user_id = Some u \<and> p_amount = Some a \<and> 0 < a \<and> t u = Some old \<and>
        ?t' = t(u \<mapsto> old\<lparr>current_balance := current_balance old + a, total_earned := total_earned old + a,
               points_history := points_history old @ [award_entry now p_amount src d], updated_at := now\<rparr>)"
      then obtain u old a where a: "0 < a" and old: "t u = Some old"
        and t': "?t' = t(u \<mapsto> old\<lparr>current_balance := current_balance old + a, total_earned := total_earned old + a,
               points_history := points_history old @ [award_entry now p_amount src d], updated_at := now\<rparr>)"
        by blast
      from old inv have io: "ledger_inv old" by (auto simp: ran_def)
      from r obtain v where v: "?t' v = Some r" by (auto simp: ran_def)
      show ?thesis
      proof (cases "v = u")
        case True
        with v t' have "r = old\<lparr>current_balance := current_balance old + a, total_earned := total_earned old + a,
               points_history := points_history old @ [award_entry now p_amount src d], updated_at := now\<rparr>"
          by simp
        with io a show ?thesis by (simp add: ledger_inv_def)
      next
        case False
        with v t' have "t v = Some r" by simp
        with inv show ?thesis by (auto simp: ran_def)
      qed
    qed
  qed
next
  assume inv: "\<forall>r \<in> ran t. ledger_inv r"
  let ?t' = "table_after t (spend_points now t p_user_id p_amount pur d)"
  show "\<forall>r \<in> ran ?t'. ledger_inv r"
  proof
    fix r assume r: "r \<in> ran ?t'"
    from spend_points_after[of t now p_user_id p_amount pur d]
    show "ledger_inv r"
    proof
      assume "?t' = t" with r inv show ?thesis by simp
    next
      assume "\<exists>u old a. p_user_id = Some u \<and> p_amount = Some a \<and> 0 < a \<and> a \<le> current_balance old \<and> t u = Some old \<and>
        ?t' = t(u \<mapsto> old\<lparr>current_balance := current_balance old - a, total_spent := total_spent old + a,
               points_history := points_history old @ [spend_entry now (Some (- a)) pur d], updated_at := now\<rparr>)"
      then obtain u old a where a: "0 < a" "a \<le> current_balance old" and old: "t u = Some old"
        and t': "?t' = t(u \<mapsto> old\<lparr>current_balance := current_balance old - a, total_spent := total_spent old + a,
               points_history := points_history old @ [spend_entry now (Some (- a)) pur d], updated_at := now\<rparr>)"
        by blast
      from old inv have io: "ledger_inv old" by (auto simp: ran_def)
      from r obtain v where v: "?t' v = Some r" by (auto simp: ran_def)
      show ?thesis
      proof (cases "v = u")
        case True
        with v t' have "r = old\<lparr>current_balance := current_balance old - a, total_spent := total_spent old + a,
               points_history := points_history old @ [spend_entry now (Some (- a)) pur d], updated_at := now\<rparr>"
          by simp
        with io a show ?thesis by (simp add: ledger_inv_def)
      next
        case False
        with v t' have "t v = Some r" by simp
        with inv show ?thesis by (auto simp: ran_def)
      qed
    qed
  qed
qed

theorem ledger_invariant_witness:
  "ledger_inv (user_points_defaults 0)
   \<and> handle_new_profile_points 0 Map.empty (7::uuid) = Inr [7 \<mapsto> user_points_defaults 0]
   \<and> table_after [(7::uuid) \<mapsto> \<lparr>current_balance = 5, total_earned = 9, total_spent = 4, level = 1,
                  points_history = [], weekly_goal = 100, updated_at = 0\<rparr>]
        (award_points 1000 [7 \<mapsto> \<lparr>current_balance = 5, total_earned = 9, total_spent = 4, level = 1,
                  points_history = [], weekly_goal = 100, updated_at = 0\<rparr>]
           (Some 7) (Some 10) (Some ''manual'') (Some [])) 7
       = Some \<lparr>current_balance = 15, total_earned = 19, total_spent = 4, level = 1,
                  points_history = [award_entry 1000 (Some 10) (Some ''manual'') (Some [])],
                  weekly_goal = 100, updated_at = 1000\<rparr>
   \<and> ledger_inv \<lparr>current_balance = 15, total_earned = 19, total_spent = 4, level = 1,
                  points_history = [award_entry 1000 (Some 10) (Some ''manual'') (Some [])],
                  weekly_goal = 100, updated_at = 1000\<rparr>
   \<and> table_after [(7::uuid) \<mapsto> \<lparr>current_balance = 5, total_earned = 9, total_spent = 4, level = 1,
                  points_history = [], weekly_goal = 100, updated_at = 0\<rparr>]
        (spend_points 1000 [7 \<mapsto> \<lparr>current_balance = 5, total_earned = 9, total_spent = 4, level = 1,
                  points_history = [], weekly_goal = 100, updated_at = 0\<rparr>]
           (Some 7) (Some 3) (Some ''story_contribution'') (Some [])) 7
       = Some \<lparr>current_balance = 2, total_earned = 9, total_spent = 7, level = 1,
                  points_history = [spend_entry 1000 (Some (- 3)) (Some ''story_contribution'') (Some [])],
                  weekly_goal = 100, updated_at = 1000\<rparr>
   \<and> ledger_inv \<lparr>current_balance = 2, total_earned = 9, total_spent = 7, level = 1,
                  points_history = [spend_entry 1000 (Some (- 3)) (Some ''story_contribution'') (Some [])],
                  weekly_goal = 100, updated_at = 1000\<rparr>"
  (is "?A \<and> ?B \<and> ?C1 \<and> ?C2 \<and> ?D1 \<and> ?D2")
proof -
  let ?r = "\<lparr>current_balance = 5, total_earned = 9, total_spent = 4, level = 1,
                  points_history = [], weekly_goal = 100, updated_at = 0\<rparr>"
  let ?t = "[(7::uuid) \<mapsto> ?r]"
  have i: "\<forall>r \<in> ran ?t. ledger_inv r"
    by (simp add: ledger_inv_def)
  note th = ledger_invariant[where now = 1000 and t = ?t and p_user_id = "Some 7"
      and d = "Some []" and src = "Some ''manual''" and pur = "Some ''story_contribution''"]
  have a: ?A using ledger_invariant[where now = 0, THEN conjunct1] .
  have b: ?B
    by (simp add: handle_new_profile_points_def sql_bind_def user_points_checks_def user_points_defaults_def)
  have c1: ?C1
    by (simp add: table_after_def award_points_def plpgsql_if_def int4le_def update_user_points_def
        award_set_def int4pl_def int4_ok_def not_null_def sql_bind_def user_points_checks_def
        handle_updated_at_def jsonb_concat_award_entry)
  have d1: ?D1
    by (simp add: table_after_def spend_points_def plpgsql_if_def int4le_def int4lt_def int4um_def
        where_user_id_def update_user_points_def spend_set_def int4pl_def int4mi_def int4_ok_def
        not_null_def sql_bind_def user_points_checks_def handle_updated_at_def jsonb_concat_spend_entry)
  have c2: ?C2
    using th[where p_amount = "Some 10", THEN conjunct2, THEN conjunct2, THEN conjunct1] i c1
    by (blast intro: ranI)
  have d2: ?D2
    using th[where p_amount = "Some 3", THEN conjunct2, THEN conjunct2, THEN conjunct2] i d1
    by (blast intro: ranI)
  from a b c1 c2 d1 d2 show ?thesis by blast
qed

text \<open>
  C9. For a user id without a row and a positive amount, \<open>spend_points\<close> does not
  report failure: it returns a NULL balance with success true and leaves the table
  alone; \<open>award_points\<close> raises nothing and returns two NULLs.
\<close>

theorem missing_row_reports_success:
  assumes "t u = None" and "0 < a" and "int4_ok a"
  shows "spend_points now t (Some u) (Some a) pur d = Inr (t, [(None, True)])
       \<and> award_points now t (Some u) (Some a) src d = Inr (t, [(None, None)])"
  using assms
  by (simp add: spend_points_def award_points_def plpgsql_if_def int4le_def int4lt_def int4um_def
      where_user_id_def update_user_points_def sql_bind_def int4_ok_def)

theorem missing_row_reports_success_witness:
  "spend_points 1000 Map.empty (Some (7::uuid)) (Some 10) (Some ''story_contribution'') (Some [])
     = Inr (Map.empty, [(None, True)])
   \<and> award_points 1000 Map.empty (Some (7::uuid)) (Some 10) (Some ''manual'') (Some [])
     = Inr (Map.empty, [(None, None)])"
  using missing_row_reports_success[where t = Map.empty and u = 7 and a = 10 and now = 1000
      and pur = "Some ''story_contribution''" and d = "Some []" and src = "Some ''manual''"]
  by (simp add: int4_ok_def)

section \<open>Who can change a ledger row\<close>

lemma user_points_rls:
  "\<not> rls_with_check user_points_policies Insert uid row_id"
  "\<not> rls_using user_points_policies Update uid row_id"
  "\<not> rls_with_check user_points_policies Update uid row_id"
  "\<not> rls_using user_points_policies Delete uid row_id"
  "rls_using user_points_policies Select uid row_id"
  by (simp_all add: rls_with_check_def rls_using_def user_points_policies_def)

lemma client_points_statements:
  "client_insert_points uid t row_id new = Inl (RowSecurityViolation ''user_points'')"
  "client_update_points now uid t row_id set_cols = Inr t"
  "client_delete_points uid t row_id = Inr t"
  "client_select_points uid t = t"
  by (simp_all add: client_insert_points_def client_update_points_def client_delete_points_def
      client_select_points_def user_points_rls split: option.splits)

lemma profiles_delete_rls:
  "rls_using profiles_policies Select uid row_id"
  "rls_using profiles_policies Delete uid row_id \<longleftrightarrow> uid = Some row_id"
  by (auto simp: rls_using_def profiles_policies_def split: option.splits)

lemma handle_new_profile_points_cases:
  "handle_new_profile_points now t new_id = Inl (UniqueViolation ''user_points_pkey'') \<and> t new_id \<noteq> None
   \<or> handle_new_profile_points now t new_id = Inr (t(new_id \<mapsto> user_points_defaults now)) \<and> t new_id = None"
  by (auto simp: handle_new_profile_points_def sql_bind_def user_points_checks_def
      user_points_defaults_def split: option.splits)

lemma insert_profile_table:
  "user_points_tbl (keep_on_error db (insert_profile now db new_id p)) = user_points_tbl db
   \<or> user_points_tbl db new_id = None \<and>
     user_points_tbl (keep_on_error db (insert_profile now db new_id p))
       = (user_points_tbl db)(new_id \<mapsto> user_points_defaults now)"
  using handle_new_profile_points_cases[of now "user_points_tbl db" new_id]
  by (auto simp: insert_profile_def keep_on_error_def sql_bind_def split: sum.splits)

lemma client_insert_profile_table:
  "user_points_tbl (keep_on_error db (client_insert_profile now uid db new_id p)) = user_points_tbl db
   \<or> user_points_tbl db new_id = None \<and>
     user_points_tbl (keep_on_error db (client_insert_profile now uid db new_id p))
       = (user_points_tbl db)(new_id \<mapsto> user_points_defaults now)"
  using insert_profile_table[of db now new_id p]
  by (auto simp: client_insert_profile_def keep_on_error_def)

lemma client_delete_profile_table:
  "user_points_tbl (keep_on_error db (client_delete_profile uid db row_id)) = user_points_tbl db
   \<or> uid = Some row_id \<and>
     user_points_tbl (keep_on_error db (client_delete_profile uid db row_id))
       = (user_points_tbl db)(row_id := None)"
  by (auto simp: client_delete_profile_def delete_profile_row_def keep_on_error_def
      profiles_delete_rls split: option.splits)

lemma client_update_profile_table:
  "user_points_tbl (keep_on_error db (client_update_profile now uid db row_id set_cols))
     = user_points_tbl db"
  by (auto simp: client_update_profile_def keep_on_error_def sql_bind_def
      split: option.splits sum.splits)

lemma on_auth_user_deleted_table:
  "user_points_tbl (on_auth_user_deleted db row_id) = user_points_tbl db
   \<or> user_points_tbl (on_auth_user_deleted db row_id) = (user_points_tbl db)(row_id := None)"
  by (auto simp: on_auth_user_deleted_def delete_profile_row_def split: option.splits)

text \<open>What one statement can do to the row of one user.\<close>

lemma exec_row_cases:
  "user_points_tbl (exec db st) u = user_points_tbl db u
   \<or> (\<exists>now a src d old. st = Rpc_award_points now (Some u) (Some a) src d \<and> 0 < a
        \<and> user_points_tbl db u = Some old
        \<and> user_points_tbl (exec db st) u
            = Some (old\<lparr>current_balance := current_balance old + a, total_earned := total_earned old + a,
                 points_history := points_history old @ [award_entry now (Some a) src d], updated_at := now\<rparr>))
   \<or> (\<exists>now a pur d old. st = Rpc_spend_points now (Some u) (Some a) pur d \<and> 0 < a
        \<and> a \<le> current_balance old \<and> user_points_tbl db u = Some old
        \<and> user_points_tbl (exec db st) u
            = Some (old\<lparr>current_balance := current_balance old - a, total_spent := total_spent old + a,
                 points_history := points_history old @ [spend_entry now (Some (- a)) pur d], updated_at := now\<rparr>))
   \<or> (\<exists>now p. (st = Handle_new_user now u p \<or> (\<exists>uid. st = Client_insert_profile now uid u p))
        \<and> user_points_tbl db u = None
        \<and> user_points_tbl (exec db st) u = Some (user_points_defaults now))
   \<or> (removes_profile st u \<and> user_points_tbl (exec db st) u = None)"
proof (cases st)
  case (Client_insert_points uid row_id new)
  then show ?thesis by (simp add: client_points_statements keep_on_error_def)
next
  case (Client_update_points now uid row_id set_cols)
  then show ?thesis by (simp add: client_points_statements keep_on_error_def)
next
  case (Client_delete_points uid row_id)
  then show ?thesis by (simp add: client_points_statements keep_on_error_def)
next
  case (Rpc_award_points now p_user_id p_amount src d)
  from award_points_after[of "user_points_tbl db" now p_user_id p_amount src d]
  show ?thesis
  proof
    assume "table_after (user_points_tbl db) (award_points now (user_points_tbl db) p_user_id p_amount src d) = user_points_tbl db"
    with Rpc_award_points show ?thesis by simp
  next
    assume "\<exists>v old a. p_user_id = Some v \<and> p_amount = Some a \<and> 0 < a \<and> user_points_tbl db v = Some old \<and>
      table_after (user_points_tbl db) (award_points now (user_points_tbl db) p_user_id p_amount src d)
        = (user_points_tbl db)(v \<mapsto> old\<lparr>current_balance := current_balance old + a, total_earned := total_earned old + a,
               points_history := points_history old @ [award_entry now p_amount src d], updated_at := now\<rparr>)"
    then obtain v old a where h: "p_user_id = Some v" "p_amount = Some a" "0 < a" "user_points_tbl db v = Some old"
      "table_after (user_points_tbl db) (award_points now (user_points_tbl db) p_user_id p_amount src d)
        = (user_points_tbl db)(v \<mapsto> old\<lparr>current_balance := current_balance old + a, total_earned := total_earned old + a,
               points_history := points_history old @ [award_entry now p_amount src d], updated_at := now\<rparr>)"
      by blast
    show ?thesis
    proof (cases "v = u")
      case True
      with h Rpc_award_points show ?thesis by simp
    next
      case False
      with h Rpc_award_points show ?thesis by simp
    qed
  qed
next
  case (Rpc_spend_points now p_user_id p_amount pur d)
  from spend_points_after[of "user_points_tbl db" now p_user_id p_amount pur d]
  show ?thesis
  proof
    assume "table_after (user_points_tbl db) (spend_points now (user_points_tbl db) p_user_id p_amount pur d) = user_points_tbl db"
    with Rpc_spend_points show ?thesis by simp
  next
    assume "\<exists>v old a. p_user_id = Some v \<and> p_amount = Some a \<and> 0 < a \<and> a \<le> current_balance old \<and> user_points_tbl db v = Some old \<and>
      table_after (user_points_tbl db) (spend_points now (user_points_tbl db) p_user_id p_amount pur d)
        = (user_points_tbl db)(v \<mapsto> old\<lparr>current_balance := current_balance old - a, total_spent := total_spent old + a,
               points_history := points_history old @ [spend_entry now (Some (- a)) pur d], updated_at := now\<rparr>)"
    then obtain v old a where h: "p_user_id = Some v" "p_amount = Some a" "0 < a" "a \<le> current_balance old"
      "user_points_tbl db v = Some old"
      "table_after (user_points_tbl db) (spend_points now (user_points_tbl db) p_user_id p_amount pur d)
        = (user_points_tbl db)(v \<mapsto> old\<lparr>current_balance := current_balance old - a, total_spent := total_spent old + a,
               points_history := points_history old @ [spend_entry now (Some (- a)) pur d], updated_at := now\<rparr>)"
      by blast
    show ?thesis
    proof (cases "v = u")
      case True
      with h Rpc_spend_points show ?thesis by simp
    next
      case False
      with h Rpc_spend_points show ?thesis by simp
    qed
  qed
next
  case (Handle_new_user now new_id p)
  from insert_profile_table[of db now new_id p] Handle_new_user
  show ?thesis by (cases "new_id = u") auto
next
  case (Client_insert_profile now uid new_id p)
  from client_insert_profile_table[of db now uid new_id p] Client_insert_profile
  show ?thesis by (cases "new_id = u") auto
next
  case (Client_update_profile now uid row_id set_cols)
  then show ?thesis by (simp add: client_update_profile_table)
next
  case (Client_delete_profile uid row_id)
  from client_delete_profile_table[of db uid row_id] Client_delete_profile
  show ?thesis by (cases "row_id = u") auto
next
  case (Auth_user_deleted row_id)
  from on_auth_user_deleted_table[of db row_id] Auth_user_deleted
  show ?thesis by (cases "row_id = u") auto
qed

lemma award_points_history:
  assumes "t u = Some r" and "award_points now t p_user_id p_amount src d = Inr (t', res)"
  shows "\<exists>r'. t' u = Some r' \<and>
           (if p_user_id = Some u then \<exists>e. points_history r' = points_history r @ [e]
            else points_history r' = points_history r)"
proof (cases "p_user_id = Some u")
  case True
  show ?thesis
  proof (cases p_amount)
    case None
    with True assms show ?thesis
      by (simp add: award_points_def plpgsql_if_def int4le_def update_user_points_def
            award_set_def int4pl_def sql_bind_def not_null_def)
  next
    case (Some a)
    have pos: "0 < a"
      using assms(2) Some by (auto simp: award_points_def plpgsql_if_def int4le_def split: if_splits)
    from assms True Some pos obtain new where
      n: "award_set now (Some a) (award_entry now (Some a) src d) r = Inr new"
      and t': "t' = t(u \<mapsto> handle_updated_at now new)"
      using award_points_Inr[of t u r a now src d t' res] by auto
    from n have "points_history (handle_updated_at now new)
        = points_history r @ [award_entry now (Some a) src d]"
      by (simp add: award_set_Inr handle_updated_at_def jsonb_concat_award_entry)
    with t' True show ?thesis by simp
  qed
next
  case False
  from assms(2) have ta: "table_after t (award_points now t p_user_id p_amount src d) = t'"
    by (simp add: table_after_def)
  have "t' u = t u"
    using award_points_after[of t now p_user_id p_amount src d] ta False
    by (elim disjE exE conjE) (simp, metis fun_upd_other)
  with assms(1) False show ?thesis by simp
qed

lemma spend_points_history:
  assumes "t u = Some r" and "spend_points now t p_user_id p_amount pur d = Inr (t', [(b, ok)])"
  shows "\<exists>r'. t' u = Some r' \<and>
           (if p_user_id = Some u \<and> ok then \<exists>e. points_history r' = points_history r @ [e]
            else points_history r' = points_history r)"
proof (cases "p_user_id = Some u")
  case True
  show ?thesis
  proof (cases p_amount)
    case None
    with True assms show ?thesis
      by (simp add: spend_points_def plpgsql_if_def int4le_def int4lt_def int4um_def
            where_user_id_def update_user_points_def
            spend_set_def int4pl_def int4mi_def sql_bind_def not_null_def)
  next
    case (Some a)
    have pos: "0 < a"
      using assms(2) Some by (auto simp: spend_points_def plpgsql_if_def int4le_def split: if_splits)
    show ?thesis
    proof (cases "a \<le> current_balance r")
      case False
      then have "spend_points now t p_user_id p_amount pur d = Inr (t, [(Some (current_balance r), False)])"
        using spend_points_low_balance[of t u r a now pur d] assms(1) True Some pos by simp
      with assms show ?thesis by simp
    next
      case le: True
      from assms True Some pos le obtain new where
        n: "spend_set now (Some a) (spend_entry now (Some (- a)) pur d) r = Inr new"
        and t': "t' = t(u \<mapsto> handle_updated_at now new)" and ok: "ok"
        using spend_points_Inr[of t u r a now pur d t' "[(b, ok)]"] by auto
      from n have "points_history (handle_updated_at now new)
          = points_history r @ [spend_entry now (Some (- a)) pur d]"
        by (simp add: spend_set_Inr handle_updated_at_def jsonb_concat_spend_entry)
      with t' True ok show ?thesis by simp
    qed
  qed
next
  case False
  from assms(2) have ta: "table_after t (spend_points now t p_user_id p_amount pur d) = t'"
    by (simp add: table_after_def)
  have "t' u = t u"
    using spend_points_after[of t now p_user_id p_amount pur d] ta False
    by (elim disjE exE conjE) (simp, metis fun_upd_other)
  with assms(1) False show ?thesis by simp
qed

text \<open>
  C3, as stated: the policies of \<open>user_points\<close> reject every direct INSERT and
  UPDATE of every client and let every client read every row, hence every change of a
  ledger row is made by \<open>award_points\<close>, \<open>spend_points\<close> or the trigger
  \<open>handle_new_profile_points\<close>. The last part fails: a client that deletes its own
  profile, which the policy \<open>Users can delete own profile\<close> allows, removes its
  ledger row through ON DELETE CASCADE, and that statement runs none of the three.
\<close>

theorem cascade_delete_is_not_a_ledger_routine:
  "user_points_tbl
     \<lparr>profiles_tbl = [(7, \<lparr>profile.username = ''ada'', display_name = None, avatar_url = None, bio = None,
          fitness_level = None, height_cm = None, weight_kg = None, created_at = 0,
          profile_updated_at = 0\<rparr>)],
      user_points_tbl = [(7::uuid) \<mapsto> user_points_defaults 0]\<rparr> 7
     = Some (user_points_defaults 0)
   \<and> user_points_tbl (exec
     \<lparr>profiles_tbl = [(7, \<lparr>profile.username = ''ada'', display_name = None, avatar_url = None, bio = None,
          fitness_level = None, height_cm = None, weight_kg = None, created_at = 0,
          profile_updated_at = 0\<rparr>)],
      user_points_tbl = [(7::uuid) \<mapsto> user_points_defaults 0]\<rparr>
     (Client_delete_profile (Some 7) 7)) 7 = None
   \<and> \<not> ledger_routine (Client_delete_profile (Some 7) 7)"
  by (simp add: client_delete_profile_def delete_profile_row_def keep_on_error_def rls_using_def
      profiles_policies_def)

text \<open>
  C3, amended. For every client and every row the policies reject a direct INSERT
  and a direct UPDATE, there is no policy for DELETE, and every client may SELECT
  every row; so the direct statements of a client leave the table as it is. Whenever
  a statement changes the ledger row of a user, either the statement runs
  \<open>award_points\<close>, \<open>spend_points\<close> or \<open>handle_new_profile_points\<close> and the row
  exists afterwards, or the statement deletes the user's profile (the user's own
  DELETE, or the deletion of the auth user) and the row is gone by the cascade.
\<close>

theorem ledger_rows_change_only_by_routines_or_cascade:
  "\<not> rls_with_check user_points_policies Insert uid row_id
   \<and> \<not> rls_using user_points_policies Update uid row_id
   \<and> \<not> rls_with_check user_points_policies Update uid row_id
   \<and> \<not> rls_using user_points_policies Delete uid row_id
   \<and> rls_using user_points_policies Select uid row_id
   \<and> client_insert_points uid t row_id new = Inl (RowSecurityViolation ''user_points'')
   \<and> client_update_points now uid t row_id set_cols = Inr t
   \<and> client_delete_points uid t row_id = Inr t
   \<and> client_select_points uid t = t
   \<and> (user_points_tbl (exec db st) u \<noteq> user_points_tbl db u \<longrightarrow>
        ledger_routine st \<and> user_points_tbl (exec db st) u \<noteq> None
        \<or> removes_profile st u \<and> user_points_tbl (exec db st) u = None)"
proof -
  have "user_points_tbl (exec db st) u \<noteq> user_points_tbl db u \<longrightarrow>
        ledger_routine st \<and> user_points_tbl (exec db st) u \<noteq> None
        \<or> removes_profile st u \<and> user_points_tbl (exec db st) u = None"
    using exec_row_cases[of db st u] by auto
  then show ?thesis
    by (simp add: user_points_rls client_points_statements)
qed

theorem ledger_rows_change_only_by_routines_or_cascade_witness:
  "user_points_tbl (exec
     \<lparr>profiles_tbl = [(7, \<lparr>profile.username = ''ada'', display_name = None, avatar_url = None, bio = None,
          fitness_level = None, height_cm = None, weight_kg = None, created_at = 0,
          profile_updated_at = 0\<rparr>)],
      user_points_tbl = [(7::uuid) \<mapsto> user_points_defaults 0]\<rparr>
     (Rpc_award_points 1000 (Some 7) (Some 10) (Some ''manual'') (Some []))) 7
    \<noteq> Some (user_points_defaults 0)
   \<and> ledger_routine (Rpc_award_points 1000 (Some 7) (Some 10) (Some ''manual'') (Some []))
   \<and> user_points_tbl (exec
     \<lparr>profiles_tbl = [(7, \<lparr>profile.username = ''ada'', display_name = None, avatar_url = None, bio = None,
          fitness_level = None, height_cm = None, weight_kg = None, created_at = 0,
          profile_updated_at = 0\<rparr>)],
      user_points_tbl = [(7::uuid) \<mapsto> user_points_defaults 0]\<rparr>
     (Rpc_award_points 1000 (Some 7) (Some 10) (Some ''manual'') (Some []))) 7 \<noteq> None"
  (is "?H \<and> ?C1 \<and> ?C2")
proof -
  let ?db = "\<lparr>profiles_tbl = [(7, \<lparr>profile.username = ''ada'', display_name = None, avatar_url = None, bio = None,
          fitness_level = None, height_cm = None, weight_kg = None, created_at = 0,
          profile_updated_at = 0\<rparr>)],
      user_points_tbl = [(7::uuid) \<mapsto> user_points_defaults 0]\<rparr>"
  let ?st = "Rpc_award_points 1000 (Some 7) (Some 10) (Some ''manual'') (Some [])"
  have h: ?H
    by (simp add: table_after_def award_points_def plpgsql_if_def int4le_def update_user_points_def
        award_set_def int4pl_def int4_ok_def not_null_def sql_bind_def user_points_checks_def
        handle_updated_at_def jsonb_concat_award_entry user_points_defaults_def)
  have "user_points_tbl (exec ?db ?st) 7 \<noteq> user_points_tbl ?db 7"
    using h by simp
  then have "ledger_routine ?st \<and> user_points_tbl (exec ?db ?st) 7 \<noteq> None
        \<or> removes_profile ?st 7 \<and> user_points_tbl (exec ?db ?st) 7 = None"
    using ledger_rows_change_only_by_routines_or_cascade[where db = ?db and st = ?st and u = 7]
    by blast
  then have "?C1 \<and> ?C2" by simp
  with h show ?thesis by blast
qed

text \<open>
  C4, as stated: the history only grows under \<open>award_points\<close> and \<open>spend_points\<close>,
  and no operation of the schema removes an entry. The last part fails: deleting the
  profile removes the ledger row, and every entry of its history with it.
\<close>

theorem points_history_removed_by_cascade:
  "points_history (the (user_points_tbl
     \<lparr>profiles_tbl = [(7, \<lparr>profile.username = ''ada'', display_name = None, avatar_url = None, bio = None,
          fitness_level = None, height_cm = None, weight_kg = None, created_at = 0,
          profile_updated_at = 0\<rparr>)],
      user_points_tbl = [(7::uuid) \<mapsto> \<lparr>current_balance = 10, total_earned = 10, total_spent = 0,
          level = 1, points_history = [award_entry 1000 (Some 10) (Some ''manual'') (Some [])],
          weekly_goal = 100, updated_at = 1000\<rparr>]\<rparr> 7))
     = [award_entry 1000 (Some 10) (Some ''manual'') (Some [])]
   \<and> user_points_tbl (exec
     \<lparr>profiles_tbl = [(7, \<lparr>profile.username = ''ada'', display_name = None, avatar_url = None, bio = None,
          fitness_level = None, height_cm = None, weight_kg = None, created_at = 0,
          profile_updated_at = 0\<rparr>)],
      user_points_tbl = [(7::uuid) \<mapsto> \<lparr>current_balance = 10, total_earned = 10, total_spent = 0,
          level = 1, points_history = [award_entry 1000 (Some 10) (Some ''manual'') (Some [])],
          weekly_goal = 100, updated_at = 1000\<rparr>]\<rparr>
     (Client_delete_profile (Some 7) 7)) 7 = None"
  by (simp add: client_delete_profile_def delete_profile_row_def keep_on_error_def rls_using_def
      profiles_policies_def)

text \<open>
  C4, amended. When \<open>award_points\<close> returns, the history of the user it was called
  for has exactly one entry more at its end and every other history is as before;
  when \<open>spend_points\<close> returns, the same holds if it reports success, and nothing is
  appended if it reports failure. For every statement of the schema, the history
  of a row before the statement is a prefix of its history afterwards, unless the
  statement deletes the user's profile (the user's own DELETE, or the deletion of
  the auth user), which removes the row.
\<close>

theorem points_history_append_only:
  "(t u = Some r \<and> award_points now t p_user_id p_amount src d = Inr (t', res) \<longrightarrow>
      (\<exists>r'. t' u = Some r' \<and>
         (if p_user_id = Some u then \<exists>e. points_history r' = points_history r @ [e]
          else points_history r' = points_history r)))
   \<and> (t u = Some r \<and> spend_points now t p_user_id p_amount pur d = Inr (t'', [(b, ok)]) \<longrightarrow>
      (\<exists>r'. t'' u = Some r' \<and>
         (if p_user_id = Some u \<and> ok then \<exists>e. points_history r' = points_history r @ [e]
          else points_history r' = points_history r)))
   \<and> (user_points_tbl db u = Some r \<longrightarrow>
        (\<exists>r'. user_points_tbl (exec db st) u = Some r'
            \<and> prefix (points_history r) (points_history r'))
        \<or> removes_profile st u \<and> user_points_tbl (exec db st) u = None)"
proof (intro conjI impI)
  assume "t u = Some r \<and> award_points now t p_user_id p_amount src d = Inr (t', res)"
  then show "\<exists>r'. t' u = Some r' \<and>
         (if p_user_id = Some u then \<exists>e. points_history r' = points_history r @ [e]
          else points_history r' = points_history r)"
    using award_points_history[of t u r now p_user_id p_amount src d t' res] by blast
next
  assume "t u = Some r \<and> spend_points now t p_user_id p_amount pur d = Inr (t'', [(b, ok)])"
  then show "\<exists>r'. t'' u = Some r' \<and>
         (if p_user_id = Some u \<and> ok then \<exists>e. points_history r' = points_history r @ [e]
          else points_history r' = points_history r)"
    using spend_points_history[of t u r now p_user_id p_amount pur d t'' b ok] by blast
next
  assume r: "user_points_tbl db u = Some r"
  from exec_row_cases[of db st u] r
  show "(\<exists>r'. user_points_tbl (exec db st) u = Some r'
            \<and> prefix (points_history r) (points_history r'))
        \<or> removes_profile st u \<and> user_points_tbl (exec db st) u = None"
    by auto
qed

theorem points_history_append_only_witness:
  "award_points 1000
      [(7::uuid) \<mapsto> \<lparr>current_balance = 5, total_earned = 9, total_spent = 4, level = 1,
                  points_history = [], weekly_goal = 100, updated_at = 0\<rparr>]
      (Some 7) (Some 10) (Some ''manual'') (Some [])
     = Inr ([7 \<mapsto> \<lparr>current_balance = 15, total_earned = 19, total_spent = 4, level = 1,
                  points_history = [award_entry 1000 (Some 10) (Some ''manual'') (Some [])],
                  weekly_goal = 100, updated_at = 1000\<rparr>], [(Some 15, Some 19)])
   \<and> (\<exists>r'. [(7::uuid) \<mapsto> \<lparr>current_balance = 15, total_earned = 19, total_spent = 4, level = 1,
                  points_history = [award_entry 1000 (Some 10) (Some ''manual'') (Some [])],
                  weekly_goal = 100, updated_at = 1000\<rparr>] 7 = Some r'
          \<and> (\<exists>e. points_history r' = [] @ [e]))
   \<and> spend_points 1000
      [(7::uuid) \<mapsto> \<lparr>current_balance = 5, total_earned = 9, total_spent = 4, level = 1,
                  points_history = [], weekly_goal = 100, updated_at = 0\<rparr>]
      (Some 7) (Some 10) (Some ''story_contribution'') (Some [])
     = Inr ([7 \<mapsto> \<lparr>current_balance = 5, total_earned = 9, total_spent = 4, level = 1,
                  points_history = [], weekly_goal = 100, updated_at = 0\<rparr>], [(Some 5, False)])
   \<and> (\<exists>r'. [(7::uuid) \<mapsto> \<lparr>current_balance = 5, total_earned = 9, total_spent = 4, level = 1,
                  points_history = [], weekly_goal = 100, updated_at = 0\<rparr>] 7 = Some r'
          \<and> points_history r' = [])
   \<and> ((\<exists>r'. user_points_tbl (exec
           \<lparr>profiles_tbl = [(7, \<lparr>profile.username = ''ada'', display_name = None, avatar_url = None,
               bio = None, fitness_level = None, height_cm = None, weight_kg = None,
               created_at = 0, profile_updated_at = 0\<rparr>)],
            user_points_tbl = [(7::uuid) \<mapsto> \<lparr>current_balance = 5, total_earned = 9, total_spent = 4,
               level = 1, points_history = [], weekly_goal = 100, updated_at = 0\<rparr>]\<rparr>
           (Rpc_award_points 1000 (Some 7) (Some 10) (Some ''manual'') (Some []))) 7 = Some r'
          \<and> prefix [] (points_history r'))
        \<or> removes_profile (Rpc_award_points 1000 (Some 7) (Some 10) (Some ''manual'') (Some [])) 7
          \<and> user_points_tbl (exec
           \<lparr>profiles_tbl = [(7, \<lparr>profile.username = ''ada'', display_name = None, avatar_url = None,
               bio = None, fitness_level = None, height_cm = None, weight_kg = None,
               created_at = 0, profile_updated_at = 0\<rparr>)],
            user_points_tbl = [(7::uuid) \<mapsto> \<lparr>current_balance = 5, total_earned = 9, total_spent = 4,
               level = 1, points_history = [], weekly_goal = 100, updated_at = 0\<rparr>]\<rparr>
           (Rpc_award_points 1000 (Some 7) (Some 10) (Some ''manual'') (Some []))) 7 = None)"
  (is "?A \<and> ?B \<and> ?C \<and> ?D \<and> ?E")
proof -
  let ?r = "\<lparr>current_balance = 5, total_earned = 9, total_spent = 4, level = 1,
                  points_history = [], weekly_goal = 100, updated_at = 0\<rparr>"
  let ?t = "[(7::uuid) \<mapsto> ?r]"
  let ?t1 = "[(7::uuid) \<mapsto> \<lparr>current_balance = 15, total_earned = 19, total_spent = 4, level = 1,
                  points_history = [award_entry 1000 (Some 10) (Some ''manual'') (Some [])],
                  weekly_goal = 100, updated_at = 1000\<rparr>]"
  let ?db = "\<lparr>profiles_tbl = [(7, \<lparr>profile.username = ''ada'', display_name = None, avatar_url = None,
               bio = None, fitness_level = None, height_cm = None, weight_kg = None,
               created_at = 0, profile_updated_at = 0\<rparr>)], user_points_tbl = ?t\<rparr>"
  let ?st = "Rpc_award_points 1000 (Some 7) (Some 10) (Some ''manual'') (Some [])"
  note th = points_history_append_only[where t = ?t and u = 7 and r = ?r and now = 1000
      and p_user_id = "Some 7" and p_amount = "Some 10" and d = "Some []"]
  have a: ?A
    by (simp add: award_points_def plpgsql_if_def int4le_def update_user_points_def award_set_def
        int4pl_def int4_ok_def not_null_def sql_bind_def user_points_checks_def handle_updated_at_def
        jsonb_concat_award_entry)
  have c: ?C
    by (simp add: spend_points_def plpgsql_if_def int4le_def int4lt_def where_user_id_def)
  have b: ?B
    using th[where src = "Some ''manual''" and t' = ?t1 and res = "[(Some 15, Some 19)]",
        THEN conjunct1] a
    by simp
  have d: ?D
    using th[where pur = "Some ''story_contribution''" and t'' = ?t and b = "Some 5" and ok = False,
        THEN conjunct2, THEN conjunct1] c
    by simp
  have e: ?E
    using th[where db = ?db and st = ?st, THEN conjunct2, THEN conjunct2]
    by simp
  from a b c d e show ?thesis by blast
qed

section \<open>Properties of the authentication utilities\<close>

lemmas async_defs = await_def try_catch_def return_async_def

lemma login_eq:
  "login c ld = ([Auth_signInWithPassword (LoginData.email ld) (LoginData.password ld)],
      Inr (auth_pass_through (auth_signInWithPassword c (LoginData.email ld) (LoginData.password ld))))"
  by (auto simp: login_def async_defs auth_pass_through_def split: sum.splits option.splits prod.splits)

lemma logout_eq: "logout c = ([Auth_signOut], Inr (pass_through (auth_signOut c)))"
  by (auto simp: logout_def async_defs pass_through_def split: sum.splits option.splits)

lemma resetPassword_eq:
  "resetPassword c app_url em = ([Auth_resetPasswordForEmail em (reset_redirectTo app_url)],
      Inr (pass_through (auth_resetPasswordForEmail c em (reset_redirectTo app_url))))"
  by (auto simp: resetPassword_def async_defs pass_through_def split: sum.splits option.splits)

lemma updatePassword_eq:
  "updatePassword c pw = ([Auth_updateUser pw], Inr (pass_through (auth_updateUser c pw)))"
  by (auto simp: updatePassword_def async_defs pass_through_def split: sum.splits option.splits)

lemma signUp_lookup_thrown:
  assumes "profiles_select_username c (username sd) = Inl err"
  shows "signUp c sd = ([Profiles_select_username (username sd)],
           Inr \<lparr>user = None, error = Some \<lparr>message = caught_message err, field = None\<rparr>\<rparr>)"
  using assms by (simp add: signUp_def async_defs)

lemma signUp_taken:
  assumes "profiles_select_username c (username sd) = Inr (Some row, ce)"
  shows "signUp c sd = ([Profiles_select_username (username sd)],
           Inr \<lparr>user = None,
                error = Some \<lparr>message = ''Username already taken'', field = Some ''username''\<rparr>\<rparr>)"
  using assms by (simp add: signUp_def async_defs)

lemma signUp_lookup_error:
  assumes "profiles_select_username c (username sd) = Inr (None, Some e)"
    and "be_code e \<noteq> Some ''PGRST116''"
  shows "signUp c sd = ([Profiles_select_username (username sd)],
           Inr \<lparr>user = None, error = Some \<lparr>message = be_message e, field = None\<rparr>\<rparr>)"
  using assms by (simp add: signUp_def async_defs)

lemma signUp_proceeds:
  assumes "profiles_select_username c (username sd) = Inr (None, ce)"
    and "ce = None \<or> be_code (the ce) = Some ''PGRST116''"
  shows "signUp c sd =
           ([Profiles_select_username (username sd),
             Auth_signUp (SignUpData.email sd) (SignUpData.password sd) (username sd) (displayName sd)],
            Inr (auth_pass_through
              (auth_signUp c (SignUpData.email sd) (SignUpData.password sd) (username sd) (displayName sd))))"
  using assms
  by (auto simp: signUp_def async_defs auth_pass_through_def split: sum.splits option.splits prod.splits)

lemma signUp_cases:
  obtains (thrown) err where "profiles_select_username c (username sd) = Inl err"
  | (taken) row ce where "profiles_select_username c (username sd) = Inr (Some row, ce)"
  | (failed) e where "profiles_select_username c (username sd) = Inr (None, Some e)"
      "be_code e \<noteq> Some ''PGRST116''"
  | (proceeds) ce where "profiles_select_username c (username sd) = Inr (None, ce)"
      "ce = None \<or> be_code (the ce) = Some ''PGRST116''"
proof (cases "profiles_select_username c (username sd)")
  case (Inl err)
  then show ?thesis by (rule thrown)
next
  case (Inr p)
  obtain ex ce where p: "p = (ex, ce)" by (cases p)
  show ?thesis
  proof (cases ex)
    case (Some row)
    with Inr p show ?thesis by (auto intro: taken)
  next
    case None
    show ?thesis
    proof (cases "ce = None \<or> be_code (the ce) = Some ''PGRST116''")
      case True
      with Inr p None show ?thesis by (auto intro: proceeds)
    next
      case False
      then obtain e where "ce = Some e" "be_code e \<noteq> Some ''PGRST116''" by auto
      with Inr p None show ?thesis by (auto intro: failed)
    qed
  qed
qed



lemma pass_through_no_field: "pass_through outcome = Some e \<Longrightarrow> field e = None"
  by (auto simp: pass_through_def split: sum.splits option.splits)

lemma auth_pass_through_no_field:
  "error (auth_pass_through outcome) = Some e \<Longrightarrow> field e = None"
  by (auto simp: auth_pass_through_def split: sum.splits option.splits prod.splits)

lemma signUp_field_only_when_taken:
  assumes "snd (signUp c sd) = Inr r" and "error r = Some e" and "field e \<noteq> None"
  shows "(\<exists>row ce. profiles_select_username c (username sd) = Inr (Some row, ce))
        \<and> e = \<lparr>message = ''Username already taken'', field = Some ''username''\<rparr>"
proof (cases c sd rule: signUp_cases)
  case (thrown err)
  with assms show ?thesis by (auto simp: signUp_lookup_thrown)
next
  case (taken row ce)
  with assms show ?thesis by (auto simp: signUp_taken)
next
  case (failed e0)
  with assms show ?thesis by (auto simp: signUp_lookup_error)
next
  case (proceeds ce)
  with assms show ?thesis
    using auth_pass_through_no_field[of _ e] by (auto simp: signUp_proceeds)
qed




text \<open>
  C10. When the username lookup of \<open>signUp\<close> returns a row (the username belongs to
  an existing profile), \<open>signUp\<close> returns a null user and the error
  \<open>Username already taken\<close> with field \<open>username\<close>, and the lookup is the only
  request it has sent: the account creation is not called. No other path of
  \<open>signUp\<close>, \<open>login\<close>, \<open>logout\<close>, \<open>resetPassword\<close> or \<open>updatePassword\<close>
  returns an error with a field.
\<close>

theorem signUp_username_taken:
  "(profiles_select_username c (username sd) = Inr (Some row, ce) \<longrightarrow>
      signUp c sd = ([Profiles_select_username (username sd)],
        Inr \<lparr>user = None,
             error = Some \<lparr>message = ''Username already taken'', field = Some ''username''\<rparr>\<rparr>))
   \<and> (snd (signUp c sd) = Inr r \<and> error r = Some e \<and> field e \<noteq> None \<longrightarrow>
        (\<exists>row ce. profiles_select_username c (username sd) = Inr (Some row, ce))
        \<and> e = \<lparr>message = ''Username already taken'', field = Some ''username''\<rparr>)
   \<and> (snd (login c ld) = Inr r' \<and> error r' = Some e' \<longrightarrow> field e' = None)
   \<and> (snd (logout c) = Inr (Some e1) \<longrightarrow> field e1 = None)
   \<and> (snd (resetPassword c app_url em) = Inr (Some e2) \<longrightarrow> field e2 = None)
   \<and> (snd (updatePassword c pw) = Inr (Some e3) \<longrightarrow> field e3 = None)"
proof -
  have a: "profiles_select_username c (username sd) = Inr (Some row, ce) \<longrightarrow>
      signUp c sd = ([Profiles_select_username (username sd)],
        Inr \<lparr>user = None,
             error = Some \<lparr>message = ''Username already taken'', field = Some ''username''\<rparr>\<rparr>)"
    by (simp add: signUp_taken)
  have b: "snd (signUp c sd) = Inr r \<and> error r = Some e \<and> field e \<noteq> None \<longrightarrow>
        (\<exists>row ce. profiles_select_username c (username sd) = Inr (Some row, ce))
        \<and> e = \<lparr>message = ''Username already taken'', field = Some ''username''\<rparr>"
    using signUp_field_only_when_taken[of c sd r e] by blast
  have c: "snd (login c ld) = Inr r' \<and> error r' = Some e' \<longrightarrow> field e' = None"
    using auth_pass_through_no_field[of _ e'] by (auto simp: login_eq)
  have d: "snd (logout c) = Inr (Some e1) \<longrightarrow> field e1 = None"
    "snd (resetPassword c app_url em) = Inr (Some e2) \<longrightarrow> field e2 = None"
    "snd (updatePassword c pw) = Inr (Some e3) \<longrightarrow> field e3 = None"
    by (auto simp: logout_eq resetPassword_eq updatePassword_eq pass_through_no_field)
  show ?thesis
    by (intro conjI) (rule a, rule b, rule c, rule d(1), rule d(2), rule d(3))
qed

theorem signUp_username_taken_witness:
  "signUp
      \<lparr>profiles_select_username = (\<lambda>u. Inr (Some ''ada'', None)),
       auth_signUp = (\<lambda>e p u d. Inr (Some (User ''u1''), None)),
       auth_signInWithPassword = (\<lambda>e p. Inl (ThrownError ''Failed to fetch'')),
       auth_signOut = Inr None, auth_getUser = Inr None,
       auth_resetPasswordForEmail = (\<lambda>e r. Inr None), auth_updateUser = (\<lambda>p. Inr None)\<rparr>
      \<lparr>SignUpData.email = ''ada@example.com'', SignUpData.password = ''Passw0rd'', username = ''ada'',
       displayName = ''Ada''\<rparr>
     = ([Profiles_select_username ''ada''],
        Inr \<lparr>user = None,
             error = Some \<lparr>message = ''Username already taken'', field = Some ''username''\<rparr>\<rparr>)
   \<and> snd (login
      \<lparr>profiles_select_username = (\<lambda>u. Inr (Some ''ada'', None)),
       auth_signUp = (\<lambda>e p u d. Inr (Some (User ''u1''), None)),
       auth_signInWithPassword = (\<lambda>e p. Inl (ThrownError ''Failed to fetch'')),
       auth_signOut = Inr None, auth_getUser = Inr None,
       auth_resetPasswordForEmail = (\<lambda>e r. Inr None), auth_updateUser = (\<lambda>p. Inr None)\<rparr>
      \<lparr>LoginData.email = ''ada@example.com'', LoginData.password = ''Passw0rd''\<rparr>)
     = Inr \<lparr>user = None, error = Some \<lparr>message = ''Failed to fetch'', field = None\<rparr>\<rparr>
   \<and> field \<lparr>message = ''Failed to fetch'', field = None\<rparr> = None"
  (is "signUp ?c ?sd = ?r \<and> snd (login ?c ?ld) = ?rl \<and> ?F")
proof -
  have a: "signUp ?c ?sd = ?r"
    using signUp_username_taken[where c = ?c and sd = ?sd and row = "''ada''" and ce = None,
        THEN conjunct1]
    by simp
  have l: "snd (login ?c ?ld) = ?rl"
    by (simp add: login_def async_defs caught_message_def)
  have f: ?F
    using signUp_username_taken[where c = ?c and ld = ?ld
        and r' = "\<lparr>user = None, error = Some \<lparr>message = ''Failed to fetch'', field = None\<rparr>\<rparr>"
        and e' = "\<lparr>message = ''Failed to fetch'', field = None\<rparr>",
        THEN conjunct2, THEN conjunct2, THEN conjunct1] l
    by simp
  show ?thesis
    by (intro conjI) (rule a, rule l, rule f)
qed

section \<open>Properties of the format validators\<close>

lemma plus_matches_iff:
  "plus_matches p s k \<longleftrightarrow> (\<exists>a b. s = a @ b \<and> a \<noteq> [] \<and> list_all p a \<and> k b)"
proof (induction s)
  case Nil
  then show ?case by simp
next
  case (Cons c cs)
  show ?case
  proof
    assume "plus_matches p (c # cs) k"
    then have pc: "p c" and r: "plus_matches p cs k \<or> k cs" by simp_all
    from r show "\<exists>a b. c # cs = a @ b \<and> a \<noteq> [] \<and> list_all p a \<and> k b"
    proof
      assume "plus_matches p cs k"
      with Cons.IH obtain a b where "cs = a @ b" "list_all p a" "k b" by blast
      with pc have "c # cs = (c # a) @ b \<and> c # a \<noteq> [] \<and> list_all p (c # a) \<and> k b" by simp
      then show ?thesis by blast
    next
      assume "k cs"
      with pc have "c # cs = [c] @ cs \<and> [c] \<noteq> [] \<and> list_all p [c] \<and> k cs" by simp
      then show ?thesis by blast
    qed
  next
    assume "\<exists>a b. c # cs = a @ b \<and> a \<noteq> [] \<and> list_all p a \<and> k b"
    then obtain a b where ab: "c # cs = a @ b" "a \<noteq> []" "list_all p a" "k b" by blast
    then obtain a' where a: "a = c # a'" by (cases a) auto
    with ab have pc: "p c" and cs: "cs = a' @ b" and pa: "list_all p a'" by simp_all
    show "plus_matches p (c # cs) k"
    proof (cases "a' = []")
      case True
      with cs ab(4) pc show ?thesis by simp
    next
      case False
      with cs pa ab(4) Cons.IH have "plus_matches p cs k" by blast
      with pc show ?thesis by simp
    qed
  qed
qed

lemma one_matches_iff:
  "matches (One_of p) s k \<longleftrightarrow> (\<exists>c rest. s = c # rest \<and> p c \<and> k rest)"
  by (cases s) simp_all

lemma test_search_one: "test_search (One_of p) s \<longleftrightarrow> list_ex p s"
  by (induction s) auto

lemma test_anchored_plus: "test_anchored (Plus_of p) s \<longleftrightarrow> s \<noteq> [] \<and> list_all p s"
  by (auto simp: test_anchored_def plus_matches_iff)

lemma emailRegex_matches:
  "matches emailRegex e (\<lambda>rest. rest = []) \<longleftrightarrow>
     (\<exists>a b c. e = a @ [of_char CHR ''@''] @ b @ [of_char CHR ''.''] @ c
        \<and> a \<noteq> [] \<and> b \<noteq> [] \<and> c \<noteq> []
        \<and> list_all not_space_at a \<and> list_all not_space_at b \<and> list_all not_space_at c)"
  (is "?L \<longleftrightarrow> ?R")
proof -
  let ?at = "of_char CHR ''@'' :: code_unit" and ?dot = "of_char CHR ''.'' :: code_unit"
  let ?N = "\<exists>a r1. e = a @ r1 \<and> a \<noteq> [] \<and> list_all not_space_at a \<and>
      (\<exists>c1 r2. r1 = c1 # r2 \<and> c1 = ?at \<and>
        (\<exists>b r3. r2 = b @ r3 \<and> b \<noteq> [] \<and> list_all not_space_at b \<and>
          (\<exists>c2 r4. r3 = c2 # r4 \<and> c2 = ?dot \<and>
            (\<exists>c r5. r4 = c @ r5 \<and> c \<noteq> [] \<and> list_all not_space_at c \<and> r5 = []))))"
  have unfold: "?L \<longleftrightarrow> ?N"
    by (simp only: emailRegex_def matches.simps(2,3) plus_matches_iff one_matches_iff)
  have "?N \<longleftrightarrow> ?R"
  proof
    assume ?N
    then obtain a r1 r2 b r3 r4 c where
      "e = a @ r1" "a \<noteq> []" "list_all not_space_at a" "r1 = ?at # r2"
      "r2 = b @ r3" "b \<noteq> []" "list_all not_space_at b" "r3 = ?dot # r4"
      "r4 = c @ []" "c \<noteq> []" "list_all not_space_at c"
      by (elim exE conjE) simp
    then have "e = a @ [?at] @ b @ [?dot] @ c \<and> a \<noteq> [] \<and> b \<noteq> [] \<and> c \<noteq> []
        \<and> list_all not_space_at a \<and> list_all not_space_at b \<and> list_all not_space_at c"
      by simp
    then show ?R by blast
  next
    assume ?R
    then obtain a b c where e: "e = a @ [?at] @ b @ [?dot] @ c"
      and ne: "a \<noteq> []" "b \<noteq> []" "c \<noteq> []"
      and cl: "list_all not_space_at a" "list_all not_space_at b" "list_all not_space_at c"
      by blast
    have 5: "\<exists>c' r5. c = c' @ r5 \<and> c' \<noteq> [] \<and> list_all not_space_at c' \<and> r5 = []"
      using ne(3) cl(3) by simp
    then have 4: "\<exists>c2 r4. ?dot # c = c2 # r4 \<and> c2 = ?dot \<and>
            (\<exists>c' r5. r4 = c' @ r5 \<and> c' \<noteq> [] \<and> list_all not_space_at c' \<and> r5 = [])"
      by simp
    have 3: "\<exists>b' r3. b @ ?dot # c = b' @ r3 \<and> b' \<noteq> [] \<and> list_all not_space_at b' \<and>
          (\<exists>c2 r4. r3 = c2 # r4 \<and> c2 = ?dot \<and>
            (\<exists>c' r5. r4 = c' @ r5 \<and> c' \<noteq> [] \<and> list_all not_space_at c' \<and> r5 = []))"
      by (rule exI[of _ b], rule exI[of _ "?dot # c"]) (use ne(2) cl(2) 4 in simp)
    then have 2: "\<exists>c1 r2. ?at # b @ ?dot # c = c1 # r2 \<and> c1 = ?at \<and>
        (\<exists>b' r3. r2 = b' @ r3 \<and> b' \<noteq> [] \<and> list_all not_space_at b' \<and>
          (\<exists>c2 r4. r3 = c2 # r4 \<and> c2 = ?dot \<and>
            (\<exists>c' r5. r4 = c' @ r5 \<and> c' \<noteq> [] \<and> list_all not_space_at c' \<and> r5 = [])))"
      by simp
    have e': "e = a @ ?at # b @ ?dot # c" using e by simp
    show ?N
      by (rule exI[of _ a], rule exI[of _ "?at # b @ ?dot # c"]) (use e' ne(1) cl(1) 2 in simp)
  qed
  with unfold show ?thesis by simp
qed

lemma isValidEmail_iff: "isValidEmail e \<longleftrightarrow> email_shape e"
  unfolding isValidEmail_def test_anchored_def email_shape_def
  by (rule emailRegex_matches)

text \<open>
  C6. \<open>validateUsername\<close> accepts exactly the strings of 3 to 20 code units that are
  all ASCII letters, digits or underscores; \<open>validatePassword\<close> exactly the strings
  of at least 8 code units with an uppercase letter \<open>A-Z\<close>, a lowercase letter
  \<open>a-z\<close> and a digit; \<open>isValidEmail\<close> exactly the strings of the shape the
  specification describes. \<open>validateUsername\<close> and \<open>validatePassword\<close> return the
  message of the first rule that fails, in the order of the source;
  \<open>isValidEmail\<close> returns a bare boolean.
\<close>

theorem validators_accept_exactly:
  "(valid (validateUsername u) \<longleftrightarrow> 3 \<le> length u \<and> length u \<le> 20 \<and> list_all word_class u)
   \<and> (valid (validatePassword p) \<longleftrightarrow>
        8 \<le> length p \<and> list_ex upper_class p \<and> list_ex lower_class p \<and> list_ex digit_class p)
   \<and> (isValidEmail e \<longleftrightarrow> email_shape e)
   \<and> (length u < 3 \<longrightarrow>
        validateUsername u
          = \<lparr>valid = False, validation.message = Some ''Username must be at least 3 characters''\<rparr>)
   \<and> (3 \<le> length u \<and> 20 < length u \<longrightarrow>
        validateUsername u
          = \<lparr>valid = False, validation.message = Some ''Username must be no more than 20 characters''\<rparr>)
   \<and> (3 \<le> length u \<and> length u \<le> 20 \<and> \<not> list_all word_class u \<longrightarrow>
        validateUsername u
          = \<lparr>valid = False,
             validation.message = Some ''Username can only contain letters, numbers, and underscores''\<rparr>)
   \<and> (3 \<le> length u \<and> length u \<le> 20 \<and> list_all word_class u \<longrightarrow>
        validateUsername u = \<lparr>valid = True, validation.message = None\<rparr>)
   \<and> (length p < 8 \<longrightarrow>
        validatePassword p
          = \<lparr>valid = False, validation.message = Some ''Password must be at least 8 characters''\<rparr>)
   \<and> (8 \<le> length p \<and> \<not> list_ex upper_class p \<longrightarrow>
        validatePassword p
          = \<lparr>valid = False,
             validation.message = Some ''Password must contain at least one uppercase letter''\<rparr>)
   \<and> (8 \<le> length p \<and> list_ex upper_class p \<and> \<not> list_ex lower_class p \<longrightarrow>
        validatePassword p
          = \<lparr>valid = False,
             validation.message = Some ''Password must contain at least one lowercase letter''\<rparr>)
   \<and> (8 \<le> length p \<and> list_ex upper_class p \<and> list_ex lower_class p
        \<and> \<not> list_ex digit_class p \<longrightarrow>
        validatePassword p
          = \<lparr>valid = False, validation.message = Some ''Password must contain at least one number''\<rparr>)
   \<and> (8 \<le> length p \<and> list_ex upper_class p \<and> list_ex lower_class p \<and> list_ex digit_class p
        \<longrightarrow> validatePassword p = \<lparr>valid = True, validation.message = None\<rparr>)
   \<and> (word_class c \<longleftrightarrow>
        lower_class c \<or> upper_class c \<or> digit_class c \<or> c = of_char CHR ''_'')"
proof -
  have u: "validateUsername u =
     (if length u < 3
      then \<lparr>valid = False, validation.message = Some ''Username must be at least 3 characters''\<rparr>
      else if length u > 20
      then \<lparr>valid = False, validation.message = Some ''Username must be no more than 20 characters''\<rparr>
      else if \<not> list_all word_class u
      then \<lparr>valid = False,
            validation.message = Some ''Username can only contain letters, numbers, and underscores''\<rparr>
      else \<lparr>valid = True, validation.message = None\<rparr>)"
    by (auto simp: validateUsername_def test_anchored_plus)
  have p: "validatePassword p =
     (if length p < 8
      then \<lparr>valid = False, validation.message = Some ''Password must be at least 8 characters''\<rparr>
      else if \<not> list_ex upper_class p
      then \<lparr>valid = False,
            validation.message = Some ''Password must contain at least one uppercase letter''\<rparr>
      else if \<not> list_ex lower_class p
      then \<lparr>valid = False,
            validation.message = Some ''Password must contain at least one lowercase letter''\<rparr>
      else if \<not> list_ex digit_class p
      then \<lparr>valid = False, validation.message = Some ''Password must contain at least one number''\<rparr>
      else \<lparr>valid = True, validation.message = None\<rparr>)"
    by (simp add: validatePassword_def test_search_one)
  show ?thesis
    by (simp add: u p isValidEmail_iff word_class_def lower_class_def upper_class_def
        digit_class_def)
qed

theorem validators_accept_exactly_witness:
  "validateUsername (utf16 ''ab'')
     = \<lparr>valid = False, validation.message = Some ''Username must be at least 3 characters''\<rparr>
   \<and> validateUsername (utf16 ''a_name_of_21_letters_'')
     = \<lparr>valid = False, validation.message = Some ''Username must be no more than 20 characters''\<rparr>
   \<and> validateUsername (utf16 ''ada lovelace'')
     = \<lparr>valid = False,
        validation.message = Some ''Username can only contain letters, numbers, and underscores''\<rparr>
   \<and> validateUsername (utf16 ''ada_99'') = \<lparr>valid = True, validation.message = None\<rparr>
   \<and> validatePassword (utf16 ''Sh0rt'')
     = \<lparr>valid = False, validation.message = Some ''Password must be at least 8 characters''\<rparr>
   \<and> validatePassword (utf16 ''passw0rd'')
     = \<lparr>valid = False, validation.message = Some ''Password must contain at least one uppercase letter''\<rparr>
   \<and> validatePassword (utf16 ''PASSW0RD'')
     = \<lparr>valid = False, validation.message = Some ''Password must contain at least one lowercase letter''\<rparr>
   \<and> validatePassword (utf16 ''Password'')
     = \<lparr>valid = False, validation.message = Some ''Password must contain at least one number''\<rparr>
   \<and> validatePassword (utf16 ''Passw0rd'') = \<lparr>valid = True, validation.message = None\<rparr>
   \<and> isValidEmail (utf16 ''ada@example.com'')"
  (is "?U1 \<and> ?U2 \<and> ?U3 \<and> ?U4 \<and> ?P1 \<and> ?P2 \<and> ?P3 \<and> ?P4 \<and> ?P5 \<and> ?E")
proof -
  note cls = utf16_def word_class_def upper_class_def lower_class_def digit_class_def in_range_def
  have u1: ?U1
    using validators_accept_exactly[where u = "utf16 ''ab''",
        THEN conjunct2, THEN conjunct2, THEN conjunct2, THEN conjunct1]
    by (simp add: cls)
  have u2: ?U2
    using validators_accept_exactly[where u = "utf16 ''a_name_of_21_letters_''",
        THEN conjunct2, THEN conjunct2, THEN conjunct2, THEN conjunct2, THEN conjunct1]
    by (simp add: cls)
  have u3: ?U3
    using validators_accept_exactly[where u = "utf16 ''ada lovelace''",
        THEN conjunct2, THEN conjunct2, THEN conjunct2, THEN conjunct2, THEN conjunct2,
        THEN conjunct1]
    by (simp add: cls)
  have u4: ?U4
    using validators_accept_exactly[where u = "utf16 ''ada_99''",
        THEN conjunct2, THEN conjunct2, THEN conjunct2, THEN conjunct2, THEN conjunct2,
        THEN conjunct2, THEN conjunct1]
    by (simp add: cls)
  have p1: ?P1
    using validators_accept_exactly[where p = "utf16 ''Sh0rt''",
        THEN conjunct2, THEN conjunct2, THEN conjunct2, THEN conjunct2, THEN conjunct2,
        THEN conjunct2, THEN conjunct2, THEN conjunct1]
    by (simp add: cls)
  have p2: ?P2
    using validators_accept_exactly[where p = "utf16 ''passw0rd''",
        THEN conjunct2, THEN conjunct2, THEN conjunct2, THEN conjunct2, THEN conjunct2,
        THEN conjunct2, THEN conjunct2, THEN conjunct2, THEN conjunct1]
    by (simp add: cls)
  have p3: ?P3
    using validators_accept_exactly[where p = "utf16 ''PASSW0RD''",
        THEN conjunct2, THEN conjunct2, THEN conjunct2, THEN conjunct2, THEN conjunct2,
        THEN conjunct2, THEN conjunct2, THEN conjunct2, THEN conjunct2, THEN conjunct1]
    by (simp add: cls)
  have p4: ?P4
    using validators_accept_exactly[where p = "utf16 ''Password''",
        THEN conjunct2, THEN conjunct2, THEN conjunct2, THEN conjunct2, THEN conjunct2,
        THEN conjunct2, THEN conjunct2, THEN conjunct2, THEN conjunct2, THEN conjunct2,
        THEN conjunct1]
    by (simp add: cls)
  have p5: ?P5
    using validators_accept_exactly[where p = "utf16 ''Passw0rd''",
        THEN conjunct2, THEN conjunct2, THEN conjunct2, THEN conjunct2, THEN conjunct2,
        THEN conjunct2, THEN conjunct2, THEN conjunct2, THEN conjunct2, THEN conjunct2,
        THEN conjunct2, THEN conjunct1]
    by (simp add: cls)
  have "email_shape (utf16 ''ada@example.com'')"
    unfolding email_shape_def
    by (rule exI[of _ "utf16 ''ada''"], rule exI[of _ "utf16 ''example''"],
        rule exI[of _ "utf16 ''com''"])
       (simp add: utf16_def not_space_at_def space_class_def)
  then have e: ?E
    using validators_accept_exactly[where e = "utf16 ''ada@example.com''",
        THEN conjunct2, THEN conjunct2, THEN conjunct1]
    by simp
  show ?thesis
    by (intro conjI)
       (rule u1, rule u2, rule u3, rule u4, rule p1, rule p2, rule p3, rule p4, rule p5, rule e)
qed

section \<open>Properties of the auth-state hooks\<close>






end
